theory Spec2Isabelle
  imports Complex_Main "HOL-Library.AList"
begin

section \<open>Numbers, errors and values\<close>

text \<open>
  The exceptions the modelled functions can raise. \<open>NotImplementedError\<close> is listed
  because the specification names it; no modelled path constructs it.
\<close>

datatype pyerror =
  TypeError | ValueError | RuntimeError | KeyError | ZeroDivisionError | NameError
  | NotImplementedError

text \<open>
  A double as numpy and Python see it: a finite value, the two infinities, or NaN.
  Finite arithmetic is exact (rounding and overflow are left out), and the sign of a
  zero is not tracked, so a quotient by zero takes its sign from the numerator alone.
\<close>

datatype npfloat = Fin real | PInf | NInf | NaN

fun np_neg :: "npfloat \<Rightarrow> npfloat" where
  "np_neg (Fin a) = Fin (- a)"
| "np_neg PInf = NInf"
| "np_neg NInf = PInf"
| "np_neg NaN = NaN"

fun np_add :: "npfloat \<Rightarrow> npfloat \<Rightarrow> npfloat" where
  "np_add NaN y = NaN"
| "np_add x NaN = NaN"
| "np_add (Fin a) (Fin b) = Fin (a + b)"
| "np_add PInf NInf = NaN"
| "np_add NInf PInf = NaN"
| "np_add PInf y = PInf"
| "np_add x PInf = PInf"
| "np_add NInf y = NInf"
| "np_add x NInf = NInf"

definition np_sub :: "npfloat \<Rightarrow> npfloat \<Rightarrow> npfloat" where
  "np_sub x y = np_add x (np_neg y)"

fun np_mul :: "npfloat \<Rightarrow> npfloat \<Rightarrow> npfloat" where
  "np_mul NaN y = NaN"
| "np_mul x NaN = NaN"
| "np_mul (Fin a) (Fin b) = Fin (a * b)"
| "np_mul (Fin a) PInf = (if a = 0 then NaN else if 0 < a then PInf else NInf)"
| "np_mul (Fin a) NInf = (if a = 0 then NaN else if 0 < a then NInf else PInf)"
| "np_mul PInf (Fin b) = (if b = 0 then NaN else if 0 < b then PInf else NInf)"
| "np_mul NInf (Fin b) = (if b = 0 then NaN else if 0 < b then NInf else PInf)"
| "np_mul PInf PInf = PInf"
| "np_mul PInf NInf = NInf"
| "np_mul NInf PInf = NInf"
| "np_mul NInf NInf = PInf"

text \<open>numpy's division: a zero divisor gives an infinity or NaN, never an exception.\<close>

fun np_div :: "npfloat \<Rightarrow> npfloat \<Rightarrow> npfloat" where
  "np_div NaN y = NaN"
| "np_div x NaN = NaN"
| "np_div (Fin a) (Fin b) =
     (if b \<noteq> 0 then Fin (a / b)
      else if a = 0 then NaN else if 0 < a then PInf else NInf)"
| "np_div (Fin a) PInf = Fin 0"
| "np_div (Fin a) NInf = Fin 0"
| "np_div PInf (Fin b) = (if 0 \<le> b then PInf else NInf)"
| "np_div NInf (Fin b) = (if 0 \<le> b then NInf else PInf)"
| "np_div PInf PInf = NaN"
| "np_div PInf NInf = NaN"
| "np_div NInf PInf = NaN"
| "np_div NInf NInf = NaN"

fun np_sin :: "npfloat \<Rightarrow> npfloat" where
  "np_sin (Fin a) = Fin (sin a)"
| "np_sin x = NaN"

fun np_cos :: "npfloat \<Rightarrow> npfloat" where
  "np_cos (Fin a) = Fin (cos a)"
| "np_cos x = NaN"

fun np_sqrt :: "npfloat \<Rightarrow> npfloat" where
  "np_sqrt (Fin a) = (if a < 0 then NaN else Fin (sqrt a))"
| "np_sqrt PInf = PInf"
| "np_sqrt NInf = NaN"
| "np_sqrt NaN = NaN"

fun np_abs :: "npfloat \<Rightarrow> npfloat" where
  "np_abs (Fin a) = Fin \<bar>a\<bar>"
| "np_abs PInf = PInf"
| "np_abs NInf = PInf"
| "np_abs NaN = NaN"

text \<open>The comparison \<open>x > y\<close>: false as soon as one side is NaN.\<close>

fun np_gt :: "npfloat \<Rightarrow> npfloat \<Rightarrow> bool" where
  "np_gt NaN y = False"
| "np_gt x NaN = False"
| "np_gt (Fin a) (Fin b) = (b < a)"
| "np_gt PInf PInf = False"
| "np_gt PInf y = True"
| "np_gt NInf y = False"
| "np_gt (Fin a) PInf = False"
| "np_gt (Fin a) NInf = True"

text \<open>The two-argument arctangent on finite arguments, with values in \<open>(-pi, pi]\<close>.\<close>

definition atan2 :: "real \<Rightarrow> real \<Rightarrow> real" where
  "atan2 y x =
     (if 0 < x then arctan (y / x)
      else if x < 0 then (if 0 \<le> y then arctan (y / x) + pi else arctan (y / x) - pi)
      else if 0 < y then pi / 2 else if y < 0 then - (pi / 2) else 0)"

fun np_arctan2 :: "npfloat \<Rightarrow> npfloat \<Rightarrow> npfloat" where
  "np_arctan2 NaN x = NaN"
| "np_arctan2 y NaN = NaN"
| "np_arctan2 (Fin y) (Fin x) = Fin (atan2 y x)"
| "np_arctan2 (Fin y) PInf = Fin 0"
| "np_arctan2 (Fin y) NInf = Fin (if 0 \<le> y then pi else - pi)"
| "np_arctan2 PInf (Fin x) = Fin (pi / 2)"
| "np_arctan2 NInf (Fin x) = Fin (- (pi / 2))"
| "np_arctan2 PInf PInf = Fin (pi / 4)"
| "np_arctan2 PInf NInf = Fin (3 * pi / 4)"
| "np_arctan2 NInf PInf = Fin (- (pi / 4))"
| "np_arctan2 NInf NInf = Fin (- (3 * pi / 4))"

text \<open>
  \<open>np.linalg.norm(x, ord=1)\<close> of a one-dimensional array: the sum of the absolute values.
\<close>

definition norm1 :: "npfloat list \<Rightarrow> npfloat" where
  "norm1 xs = foldl np_add (Fin 0) (map np_abs xs)"

definition arr_sub :: "npfloat list \<Rightarrow> npfloat list \<Rightarrow> npfloat list" where
  "arr_sub xs ys = map2 np_sub xs ys"

definition arr_div :: "npfloat list \<Rightarrow> npfloat list \<Rightarrow> npfloat list" where
  "arr_div xs ys = map2 np_div xs ys"

text \<open>
  A parameter value: a Python float, a string, or a nested dictionary. A dictionary is
  an association list in insertion order.
\<close>

datatype pval = PFloat npfloat | PStr string | PDict "(string \<times> pval) list"

text \<open>Using a value in float arithmetic: a string or a dictionary raises TypeError.\<close>

fun as_float :: "pval \<Rightarrow> pyerror + npfloat" where
  "as_float (PFloat x) = Inr x"
| "as_float (PStr s) = Inl TypeError"
| "as_float (PDict d) = Inl TypeError"

text \<open>
  What the numeric functions receive: one Python number, a one-dimensional numpy array,
  or a plain Python list.
\<close>

datatype pyarg = Scalar npfloat | Array "npfloat list" | PyList "npfloat list"

fun elems :: "pyarg \<Rightarrow> npfloat list" where
  "elems (Scalar x) = [x]"
| "elems (Array xs) = xs"
| "elems (PyList xs) = xs"

text \<open>Sequencing of calls that may raise: the first error is the result.\<close>

definition bind_err :: "pyerror + 'a \<Rightarrow> ('a \<Rightarrow> pyerror + 'b) \<Rightarrow> pyerror + 'b" where
  "bind_err r f = (case r of Inl err \<Rightarrow> Inl err | Inr x \<Rightarrow> f x)"

text \<open>Dictionary access: \<open>d[k]\<close>, \<open>d[k] = v\<close> and \<open>d.update(other)\<close>.\<close>

definition dict_get :: "(string \<times> pval) list \<Rightarrow> string \<Rightarrow> pyerror + pval" where
  "dict_get d k = (case map_of d k of None \<Rightarrow> Inl KeyError | Some v \<Rightarrow> Inr v)"

definition dict_update :: "(string \<times> pval) list \<Rightarrow> (string \<times> pval) list \<Rightarrow> (string \<times> pval) list" where
  "dict_update d other = foldl (\<lambda>acc kv. AList.update (fst kv) (snd kv) acc) d other"

section \<open>utils/rv_utils.py: the Kepler solver and the kinematics\<close>

text \<open>
  One pass of the body of the \<open>while\<close> loop of \<open>RV.true_anomaly\<close>: the function \<open>ff\<close>,
  its derivative \<open>dff\<close> and the Newton update. \<open>ma\<close> is the mean anomaly as an array (a
  scalar broadcasts as a one-element array).
\<close>

definition newton_step :: "npfloat \<Rightarrow> npfloat list \<Rightarrow> npfloat list \<Rightarrow> npfloat list" where
  "newton_step ecc ma ea =
     (let ff = arr_sub (arr_sub ea (map (\<lambda>x. np_mul ecc (np_sin x)) ea)) ma;
          dff = map (\<lambda>x. np_sub (Fin 1) (np_mul ecc (np_cos x))) ea
      in arr_sub ea (arr_div ff dff))"

text \<open>
  The loop itself: \<open>ea\<close> and \<open>ea0\<close> are the current and the previous eccentric anomaly,
  \<open>niteration\<close> counts the passes.
\<close>

function ea_loop ::
  "npfloat \<Rightarrow> npfloat list \<Rightarrow> int \<Rightarrow> npfloat list \<Rightarrow> npfloat list \<Rightarrow> nat
    \<Rightarrow> pyerror + npfloat list" where
  "ea_loop ecc ma niterationmax ea ea0 niteration =
     (if np_gt (norm1 (arr_sub ea ea0)) (Fin (1 / 100000)) \<or> niteration = 0 then
        (if niterationmax \<le> int (niteration + 1) then Inl RuntimeError
         else ea_loop ecc ma niterationmax (newton_step ecc ma ea) ea (niteration + 1))
      else Inr ea)"
  by pat_completeness auto
termination
  by (relation "measure (\<lambda>(ecc, ma, nmax, ea, ea0, nit). nat (nmax - int nit))") auto

text \<open>The conversion of one eccentric anomaly to the true anomaly.\<close>

definition ta_of_ea :: "npfloat \<Rightarrow> npfloat \<Rightarrow> npfloat" where
  "ta_of_ea ecc x =
     np_mul (Fin 2)
       (np_arctan2 (np_mul (np_sqrt (np_add (Fin 1) ecc)) (np_sin (np_div x (Fin 2))))
                   (np_mul (np_sqrt (np_sub (Fin 1) ecc)) (np_cos (np_div x (Fin 2)))))"

text \<open>
  \<open>RV.true_anomaly\<close>. A string eccentricity raises TypeError in the first pass of the
  loop body, after the two checks on the input.
\<close>

definition true_anomaly :: "pyarg \<Rightarrow> pval \<Rightarrow> int \<Rightarrow> pyerror + pyarg" where
  "true_anomaly ma ecc niterationmax =
     (case ma of
        PyList xs \<Rightarrow> Inl TypeError
      | _ \<Rightarrow>
          (let ea = elems ma in
           if length ea = 0 then Inl ValueError
           else bind_err (as_float ecc) (\<lambda>e.
                bind_err (ea_loop e ea niterationmax ea ea 0) (\<lambda>ea'.
                Inr (Array (map (ta_of_ea e) ea'))))))"

text \<open>
  \<open>RV.mean_anomaly\<close>. A Python number becomes a zero-dimensional array and the
  arithmetic gives back a numpy scalar, which is a Python float again; a plain list
  minus a float raises TypeError.
\<close>

definition ma_value :: "npfloat \<Rightarrow> npfloat \<Rightarrow> npfloat \<Rightarrow> npfloat" where
  "ma_value t t0 p = np_div (np_mul (Fin (2 * pi)) (np_sub t t0)) p"

definition mean_anomaly :: "pyarg \<Rightarrow> pval \<Rightarrow> pval \<Rightarrow> pyerror + pyarg" where
  "mean_anomaly times' t0 period' =
     (case times' of
        PyList xs \<Rightarrow> Inl TypeError
      | Scalar t \<Rightarrow>
          bind_err (as_float t0) (\<lambda>t0'. bind_err (as_float period') (\<lambda>p.
            Inr (Scalar (ma_value t t0' p))))
      | Array ts \<Rightarrow>
          bind_err (as_float t0) (\<lambda>t0'. bind_err (as_float period') (\<lambda>p.
            Inr (Array (map (\<lambda>t. ma_value t t0' p) ts)))))"

text \<open>\<open>RV.radial_velocity\<close>, for one value of the true anomaly and for all of them.\<close>

definition rv_value :: "npfloat \<Rightarrow> npfloat \<Rightarrow> npfloat \<Rightarrow> npfloat \<Rightarrow> npfloat \<Rightarrow> npfloat" where
  "rv_value g k ta w e = np_add g (np_mul k (np_add (np_cos (np_add ta w)) (np_mul e (np_cos w))))"

definition radial_velocity :: "pval \<Rightarrow> pval \<Rightarrow> pyarg \<Rightarrow> pval \<Rightarrow> pval \<Rightarrow> pyerror + pyarg" where
  "radial_velocity gamma' k ta omega' ecc' =
     bind_err (as_float gamma') (\<lambda>g. bind_err (as_float k) (\<lambda>k'.
     bind_err (as_float omega') (\<lambda>w. bind_err (as_float ecc') (\<lambda>e.
       (case ta of
          PyList xs \<Rightarrow> Inl TypeError
        | Scalar x \<Rightarrow> Inr (Scalar (rv_value g k' x w e))
        | Array xs \<Rightarrow> Inr (Array (map (\<lambda>x. rv_value g k' x w e) xs)))))))"

text \<open>
  The class \<open>RV\<close>. The constructor stores whatever it is given; \<open>other_params\<close> is the
  dictionary of the extra keyword arguments.
\<close>

record RV =
  semi_amp :: pval
  period :: pval
  ecc :: pval
  tau :: pval
  gamma :: pval
  omega :: pval
  params :: "(string \<times> pval) list"

definition param_dict :: "RV \<Rightarrow> (string \<times> pval) list" where
  "param_dict self =
     [(''k1'', semi_amp self), (''period'', period self), (''eccentricity'', ecc self),
      (''tau'', tau self), (''mean_val'', gamma self), (''omega'', omega self)]"

definition RV_init ::
  "pval \<Rightarrow> pval \<Rightarrow> pval \<Rightarrow> pval \<Rightarrow> pval \<Rightarrow> pval \<Rightarrow> (string \<times> pval) list \<Rightarrow> RV" where
  "RV_init semi_amp' period' ecc' tau' gamma' omega' other_params =
     (let self = \<lparr>semi_amp = semi_amp', period = period', ecc = ecc', tau = tau',
                  gamma = gamma', omega = omega', params = []\<rparr>
      in self\<lparr>params := dict_update (param_dict self) other_params\<rparr>)"

text \<open>\<open>RV()\<close>: every argument at its default \<open>0.0\<close>, no extra keyword.\<close>

definition RV_default :: RV where
  "RV_default =
     RV_init (PFloat (Fin 0)) (PFloat (Fin 0)) (PFloat (Fin 0)) (PFloat (Fin 0))
       (PFloat (Fin 0)) (PFloat (Fin 0)) []"

text \<open>
  \<open>RV.from_dict\<close>: the call passes the whole mapping as the one keyword argument
  \<open>other_params\<close>, so the constructor's keyword dictionary has that single entry.
\<close>

definition from_dict :: "(string \<times> pval) list \<Rightarrow> pyerror + RV" where
  "from_dict ps =
     bind_err (dict_get ps ''k1'') (\<lambda>k1.
     bind_err (dict_get ps ''period'') (\<lambda>p.
     bind_err (dict_get ps ''eccentricity'') (\<lambda>e.
     bind_err (dict_get ps ''tau'') (\<lambda>t.
     bind_err (dict_get ps ''mean_val'') (\<lambda>g.
     bind_err (dict_get ps ''omega'') (\<lambda>w.
       Inr (RV_init k1 p e t g w [(''other_params'', PDict ps)])))))))"

definition rv_at_times :: "RV \<Rightarrow> pyarg \<Rightarrow> pyerror + pyarg" where
  "rv_at_times self t =
     bind_err (mean_anomaly t (tau self) (period self)) (\<lambda>ma.
     bind_err (true_anomaly ma (ecc self) 10000) (\<lambda>ta.
       radial_velocity (gamma self) (semi_amp self) ta (omega self) (ecc self)))"

text \<open>
  \<open>RV.rv_at_phase\<close>: \<open>t = phase * self.period + self.tau\<close>, in Python arithmetic for a
  number and elementwise for an array; a list times a float raises TypeError.
\<close>

definition rv_at_phase :: "RV \<Rightarrow> pyarg \<Rightarrow> pyerror + pyarg" where
  "rv_at_phase self phase =
     bind_err
       (case phase of
          PyList xs \<Rightarrow> Inl TypeError
        | Scalar x \<Rightarrow>
            bind_err (as_float (period self)) (\<lambda>p. bind_err (as_float (tau self)) (\<lambda>t0.
              Inr (Scalar (np_add (np_mul x p) t0))))
        | Array xs \<Rightarrow>
            bind_err (as_float (period self)) (\<lambda>p. bind_err (as_float (tau self)) (\<lambda>t0.
              Inr (Array (map (\<lambda>x. np_add (np_mul x p) t0) xs)))))
       (rv_at_times self)"

definition rv_curve_py ::
  "pyarg \<Rightarrow> pval \<Rightarrow> pval \<Rightarrow> pval \<Rightarrow> pval \<Rightarrow> pval \<Rightarrow> pval \<Rightarrow> pyerror + pyarg" where
  "rv_curve_py times' gamma' k omega' ecc' t0 period' =
     bind_err (mean_anomaly times' t0 period') (\<lambda>ma.
     bind_err (true_anomaly ma ecc' 10000) (\<lambda>ta.
       radial_velocity gamma' k ta omega' ecc'))"

text \<open>\<open>np.deg2rad\<close> of a parameter value.\<close>

fun deg2rad :: "pval \<Rightarrow> pyerror + pval" where
  "deg2rad (PFloat x) = Inr (PFloat (np_mul x (Fin (pi / 180))))"
| "deg2rad (PStr s) = Inl TypeError"
| "deg2rad (PDict d) = Inl TypeError"

fun is_str :: "pval \<Rightarrow> bool" where
  "is_str (PStr s) = True"
| "is_str v = False"

text \<open>
  \<open>RV_from_params\<close>. \<open>np.array(t)\<close> turns a list into an array; a number becomes a
  zero-dimensional array, which the arithmetic of \<open>mean_anomaly\<close> turns into a number.
\<close>

definition RV_from_params ::
  "pyarg \<Rightarrow> (string \<times> pval) list \<Rightarrow> bool \<Rightarrow> bool \<Rightarrow> pyerror + pyarg" where
  "RV_from_params t ps ignore_mean companion =
     (let t' = (case t of PyList xs \<Rightarrow> Array xs | _ \<Rightarrow> t) in
      bind_err (dict_get ps ''mean_val'') (\<lambda>g.
      bind_err (dict_get ps (if companion then ''k2'' else ''k1'')) (\<lambda>k.
      bind_err (dict_get ps ''omega'') (\<lambda>w.
      bind_err (dict_get ps ''eccentricity'') (\<lambda>e.
      bind_err (dict_get ps ''tau'') (\<lambda>t0.
      bind_err (dict_get ps ''period'') (\<lambda>p.
      bind_err (deg2rad w) (\<lambda>w'.
        if list_ex is_str [g, k, w', e, t0, p] then Inl TypeError
        else rv_curve_py t' (if ignore_mean then PFloat (Fin 0) else g) k w' e t0 p))))))))"

text \<open>
  \<open>companion_amplitude\<close>, defined with the same body in rv.py and in utils/rv_utils.py.
  The arithmetic is Python's own, so a zero divisor raises ZeroDivisionError.
\<close>

definition companion_amplitude :: "pval \<Rightarrow> pval \<Rightarrow> pval \<Rightarrow> pyerror + npfloat" where
  "companion_amplitude k_host m_host m_companion =
     bind_err (as_float m_host) (\<lambda>m.
     bind_err (as_float k_host) (\<lambda>k.
     bind_err (as_float m_companion) (\<lambda>c.
       if c = Fin 0 then Inl ZeroDivisionError
       else Inr (np_div (np_mul (np_neg k) (np_mul m (Fin (104756 / 100)))) c))))"

section \<open>rv.py: the command-line entry point\<close>

text \<open>
  Strings are lists of ASCII characters. \<open>lower\<close> maps A to Z to a to z, \<open>strip\<close> removes
  the white space of \<open>str.isspace\<close> at both ends, \<open>split_eq\<close> is \<open>split('=')\<close>.
\<close>

definition lower_char :: "char \<Rightarrow> char" where
  "lower_char c =
     (let n = (of_char c :: nat) in if 65 \<le> n \<and> n \<le> 90 then char_of (n + 32) else c)"

definition lower :: "string \<Rightarrow> string" where
  "lower s = map lower_char s"

definition is_space :: "char \<Rightarrow> bool" where
  "is_space c = (let n = (of_char c :: nat) in (9 \<le> n \<and> n \<le> 13) \<or> (28 \<le> n \<and> n \<le> 32))"

definition strip :: "string \<Rightarrow> string" where
  "strip s = rev (dropWhile is_space (rev (dropWhile is_space s)))"

fun split_eq :: "string \<Rightarrow> string list" where
  "split_eq [] = [[]]"
| "split_eq (c # cs) =
     (if c = CHR ''='' then [] # split_eq cs
      else (case split_eq cs of [] \<Rightarrow> [[c]] | w # ws \<Rightarrow> (c # w) # ws))"

fun startswith_hash :: "string \<Rightarrow> bool" where
  "startswith_hash [] = False"
| "startswith_hash (c # cs) = (c = CHR ''#'')"

text \<open>The first loop of \<open>main\<close>, over the lines of the file.\<close>

fun load_params :: "string list \<Rightarrow> (string \<times> pval) list \<Rightarrow> pyerror + (string \<times> pval) list" where
  "load_params [] parameters = Inr parameters"
| "load_params (line # rest) parameters =
     (if startswith_hash line then load_params rest parameters
      else (case split_eq (lower line) of
              [par, val] \<Rightarrow> load_params rest (AList.update (strip par) (PStr (strip val)) parameters)
            | _ \<Rightarrow> Inl ValueError))"

text \<open>
  The list of keys tested by the second loop, as the source spells it.
\<close>

definition float_keys :: "string list" where
  "float_keys = [''mean_val'', ''k1'', ''omega'', ''eccentricity'', ''tau'', ''period'',
                 ''m_star'', ''msini '', ''m_true'']"

text \<open>
  \<open>float(v)\<close>. Python's parser of float literals is a parameter \<open>pyfloat\<close> of the model:
  \<open>None\<close> where \<open>float\<close> raises ValueError.
\<close>

fun float_of :: "(string \<Rightarrow> npfloat option) \<Rightarrow> pval \<Rightarrow> pyerror + pval" where
  "float_of pyfloat (PStr s) = (case pyfloat s of None \<Rightarrow> Inl ValueError | Some x \<Rightarrow> Inr (PFloat x))"
| "float_of pyfloat (PFloat x) = Inr (PFloat x)"
| "float_of pyfloat (PDict d) = Inl TypeError"

text \<open>The second loop of \<open>main\<close>, over the keys of the dictionary.\<close>

fun convert_floats ::
  "(string \<Rightarrow> npfloat option) \<Rightarrow> string list \<Rightarrow> (string \<times> pval) list
    \<Rightarrow> pyerror + (string \<times> pval) list" where
  "convert_floats pyfloat [] parameters = Inr parameters"
| "convert_floats pyfloat (key # keys) parameters =
     (if key \<in> set float_keys then
        bind_err (dict_get parameters key) (\<lambda>v. bind_err (float_of pyfloat v) (\<lambda>x.
          convert_floats pyfloat keys (AList.update key x parameters)))
      else convert_floats pyfloat keys parameters)"

definition ingest :: "(string \<Rightarrow> npfloat option) \<Rightarrow> string list \<Rightarrow> pyerror + (string \<times> pval) list" where
  "ingest pyfloat lines =
     bind_err (load_params lines []) (\<lambda>parameters.
       convert_floats pyfloat (map fst parameters) parameters)"

text \<open>The derivation of \<open>k2\<close> when the file does not give it.\<close>

definition add_k2 :: "(string \<times> pval) list \<Rightarrow> pyerror + (string \<times> pval) list" where
  "add_k2 parameters =
     (if ''k2'' \<in> fst ` set parameters then Inr parameters
      else bind_err (dict_get parameters ''k1'') (\<lambda>k1.
           bind_err (dict_get parameters ''m_star'') (\<lambda>m_star.
           bind_err (dict_get parameters
                       (if ''m_true'' \<in> fst ` set parameters then ''m_true'' else ''msini''))
             (\<lambda>m.
           bind_err (companion_amplitude k1 m_star m) (\<lambda>k2.
             Inr (AList.update ''k2'' (PFloat k2) parameters))))))"

text \<open>
  \<open>main\<close>, from the lines of the parameter file. rv.py neither defines nor imports
  \<open>RV_phase_curve\<close>, so the phase branch raises NameError; the other branch raises the
  constant \<open>NotImplemented\<close>, which is not an exception, so Python raises TypeError.
\<close>

definition main :: "(string \<Rightarrow> npfloat option) \<Rightarrow> string list \<Rightarrow> string \<Rightarrow> pyerror + unit" where
  "main pyfloat lines mode =
     bind_err (ingest pyfloat lines) (\<lambda>parameters.
     bind_err (add_k2 parameters) (\<lambda>parameters'.
       if mode = ''phase'' then Inl NameError else Inl TypeError))"

section \<open>The formulas of the specification\<close>

text \<open>
  The Newton-Raphson update of the specification on real numbers:
  \<open>E \<leftarrow> E - f(E)/f'(E)\<close> with \<open>f(E) = E - e sin E - M\<close> and \<open>f'(E) = 1 - e cos E\<close>.
\<close>

definition newton_r :: "real \<Rightarrow> real \<Rightarrow> real \<Rightarrow> real" where
  "newton_r e m E = E - (E - e * sin E - m) / (1 - e * cos E)"

text \<open>The true anomaly of an eccentric anomaly, as the specification writes it.\<close>

definition ta_r :: "real \<Rightarrow> real \<Rightarrow> real" where
  "ta_r e E = 2 * atan2 (sqrt (1 + e) * sin (E / 2)) (sqrt (1 - e) * cos (E / 2))"

text \<open>The L1 norm of the change between two arrays of eccentric anomalies.\<close>

definition l1_change :: "real list \<Rightarrow> real list \<Rightarrow> real" where
  "l1_change xs ys = (\<Sum>d\<leftarrow>map2 (-) xs ys. \<bar>d\<bar>)"

text \<open>The iterates of the specification, starting from \<open>E\<^sub>0 = M\<close>.\<close>

primrec kepler_iter :: "real \<Rightarrow> real list \<Rightarrow> nat \<Rightarrow> real list" where
  "kepler_iter e ms 0 = ms"
| "kepler_iter e ms (Suc j) = map2 (newton_r e) ms (kepler_iter e ms j)"

text \<open>
  Convergence at pass \<open>j\<close>: at least one pass was made and the last one changed the
  eccentric anomaly by at most \<open>1e-5\<close> in L1 norm.
\<close>

definition converged_at :: "real \<Rightarrow> real list \<Rightarrow> nat \<Rightarrow> bool" where
  "converged_at e ms j \<longleftrightarrow>
     1 \<le> j \<and> l1_change (kepler_iter e ms j) (kepler_iter e ms (j - 1)) \<le> 1 / 100000"

definition shift2pi :: "real \<Rightarrow> real" where
  "shift2pi x = x + 2 * pi"

text \<open>
  A mean anomaly (about \<open>0.2313\<close>) and an eccentricity (about \<open>0.97342\<close>) at which the
  Newton-Raphson update, started at \<open>E\<^sub>0 = M\<close>, alternates between \<open>M\<close> and \<open>M + 17/4\<close>.
\<close>

definition m_cycle :: real where
  "m_cycle = 3 * pi / 2 - arctan (4 / 17) - 17 / 4"

definition e_cycle :: real where
  "e_cycle = (17 / 4) / (sin m_cycle + 17 / 4 * cos m_cycle)"

text \<open>A circular orbit of period 1 and amplitude 1, used as a concrete model.\<close>

definition rv_example :: RV where
  "rv_example = RV_init (PFloat (Fin 1)) (PFloat (Fin 1)) (PFloat (Fin 0)) (PFloat (Fin 0))
                  (PFloat (Fin 0)) (PFloat (Fin 0)) []"

text \<open>The same orbit with the argument of periastron at one degree.\<close>

definition rv_one_degree :: RV where
  "rv_one_degree = RV_init (PFloat (Fin 1)) (PFloat (Fin 1)) (PFloat (Fin 0)) (PFloat (Fin 0))
                     (PFloat (Fin 0)) (PFloat (Fin 1)) []"

text \<open>A parameter mapping with the six required keys and the extra key \<open>k2\<close>.\<close>

definition params_with_k2 :: "(string \<times> pval) list" where
  "params_with_k2 =
     [(''k1'', PFloat (Fin 1)), (''period'', PFloat (Fin 1)), (''eccentricity'', PFloat (Fin 0)),
      (''tau'', PFloat (Fin 0)), (''mean_val'', PFloat (Fin 0)), (''omega'', PFloat (Fin 0)),
      (''k2'', PFloat (Fin 5))]"

text \<open>
  A parameter file that gives the companion mass as \<open>msini\<close>, and an instance of the float
  parser that agrees with Python's \<open>float\<close> on the one string it is applied to.
\<close>

definition file_with_msini :: "string list" where
  "file_with_msini = [''k1 = 1\<newline>'', ''m_star = 1\<newline>'', ''msini = 2\<newline>'']"

definition float_of_one :: "string \<Rightarrow> npfloat option" where
  "float_of_one s = (if s = ''1'' then Some (Fin 1) else None)"

section \<open>Basic facts\<close>

lemma bind_err_simps [simp]:
  "bind_err (Inl err) f = Inl err"
  "bind_err (Inr x) f = f x"
  by (simp_all add: bind_err_def)

lemma bind_err_Inr_iff:
  "bind_err r f = Inr y \<longleftrightarrow> (\<exists>x. r = Inr x \<and> f x = Inr y)"
  by (cases r) simp_all

section \<open>Companion amplitude\<close>

text \<open>
  C8. For finite arguments with a nonzero companion mass, \<open>companion_amplitude\<close> returns
  \<open>- k_host * (m_host * 1047.56) / m_companion\<close>; at \<open>(10, 1, 1047.56)\<close> that is \<open>-10\<close>.
\<close>

theorem companion_amplitude_value:
  "m_companion \<noteq> 0 \<Longrightarrow>
     companion_amplitude (PFloat (Fin k_host)) (PFloat (Fin m_host)) (PFloat (Fin m_companion))
       = Inr (Fin (- k_host * (m_host * (104756 / 100)) / m_companion))
     \<and> companion_amplitude (PFloat (Fin 10)) (PFloat (Fin 1)) (PFloat (Fin (104756 / 100)))
       = Inr (Fin (- 10))"
  by (simp add: companion_amplitude_def)

theorem companion_amplitude_value_witness:
  "(2::real) \<noteq> 0 \<and>
     companion_amplitude (PFloat (Fin 3)) (PFloat (Fin 1)) (PFloat (Fin 2))
       = Inr (Fin (- 3 * (1 * (104756 / 100)) / 2))"
  using companion_amplitude_value [of 2 3 1] by simp

declare ea_loop.simps [simp del]

section \<open>The loop on finite numbers\<close>

lemma arr_sub_simps [simp]:
  "arr_sub [] ys = []" "arr_sub xs [] = []"
  "arr_sub (x # xs) (y # ys) = np_sub x y # arr_sub xs ys"
  by (simp_all add: arr_sub_def)

lemma arr_div_simps [simp]:
  "arr_div [] ys = []" "arr_div xs [] = []"
  "arr_div (x # xs) (y # ys) = np_div x y # arr_div xs ys"
  by (simp_all add: arr_div_def)

lemma length_arr_sub [simp]: "length (arr_sub xs ys) = min (length xs) (length ys)"
  by (simp add: arr_sub_def)

lemma length_arr_div [simp]: "length (arr_div xs ys) = min (length xs) (length ys)"
  by (simp add: arr_div_def)

lemma length_newton_step [simp]:
  "length (newton_step e ma ea) = min (length ea) (length ma)"
  by (simp add: newton_step_def Let_def)

lemma np_sub_Fin [simp]: "np_sub (Fin a) (Fin b) = Fin (a - b)"
  by (simp add: np_sub_def)

lemma denom_nonzero: "\<bar>e\<bar> < 1 \<Longrightarrow> 1 - e * cos x \<noteq> (0::real)"
proof
  assume e: "\<bar>e\<bar> < 1" and z: "1 - e * cos x = 0"
  have "\<bar>e * cos x\<bar> = \<bar>e\<bar> * \<bar>cos x\<bar>" by (simp add: abs_mult)
  also have "\<dots> \<le> \<bar>e\<bar> * 1" by (intro mult_left_mono) simp_all
  finally have "\<bar>e * cos x\<bar> < 1" using e by simp
  with z show False by simp
qed

lemma newton_step_Cons:
  "newton_step e (m # ms) (x # xs) =
     np_sub x (np_div (np_sub (np_sub x (np_mul e (np_sin x))) m)
                      (np_sub (Fin 1) (np_mul e (np_cos x))))
     # newton_step e ms xs"
  by (simp add: newton_step_def Let_def)

lemma newton_step_Nil [simp]: "newton_step e [] xs = []" "newton_step e ms [] = []"
  by (simp_all add: newton_step_def Let_def)

lemma newton_elem_Fin:
  assumes "\<bar>e\<bar> < 1"
  shows "np_sub (Fin x) (np_div (np_sub (np_sub (Fin x) (np_mul (Fin e) (np_sin (Fin x)))) (Fin m))
                      (np_sub (Fin 1) (np_mul (Fin e) (np_cos (Fin x))))) = Fin (newton_r e m x)"
  using denom_nonzero [OF assms, of x] by (simp add: newton_r_def)

lemma newton_step_Fin:
  assumes "\<bar>e\<bar> < 1"
  shows "length ms = length Es \<Longrightarrow>
     newton_step (Fin e) (map Fin ms) (map Fin Es) = map Fin (map2 (newton_r e) ms Es)"
proof (induction ms Es rule: list_induct2)
  case Nil
  then show ?case by simp
next
  case (Cons m ms E Es)
  have "newton_step (Fin e) (map Fin (m # ms)) (map Fin (E # Es)) =
          Fin (newton_r e m E) # newton_step (Fin e) (map Fin ms) (map Fin Es)"
    unfolding list.map newton_step_Cons newton_elem_Fin [OF assms] by (rule refl)
  with Cons.IH show ?case by simp
qed

lemma foldl_np_add_Fin:
  "foldl np_add (Fin a) (map np_abs (map Fin xs)) = Fin (a + (\<Sum>x\<leftarrow>xs. \<bar>x\<bar>))"
  by (induction xs arbitrary: a) (simp_all add: add.assoc)

lemma norm1_Fin [simp]: "norm1 (map Fin xs) = Fin (\<Sum>x\<leftarrow>xs. \<bar>x\<bar>)"
  unfolding norm1_def foldl_np_add_Fin by simp

lemma arr_sub_Fin [simp]:
  "arr_sub (map Fin xs) (map Fin ys) = map Fin (map2 (-) xs ys)"
proof (induction xs arbitrary: ys)
  case Nil
  then show ?case by simp
next
  case (Cons x xs)
  then show ?case by (cases ys) simp_all
qed

lemma ea_loop_Fin:
  "ea_loop (Fin e) (map Fin ms) nmax (map Fin Es) (map Fin E0s) nit =
     (if 1 / 100000 < l1_change Es E0s \<or> nit = 0 then
        (if nmax \<le> int (nit + 1) then Inl RuntimeError
         else ea_loop (Fin e) (map Fin ms) nmax (newton_step (Fin e) (map Fin ms) (map Fin Es)) (map Fin Es) (nit + 1))
      else Inr (map Fin Es))"
  by (subst ea_loop.simps) (simp add: l1_change_def del: map_map)

section \<open>Analytic facts\<close>

lemma cos_lipschitz: "\<bar>cos x - cos y\<bar> \<le> \<bar>x - y\<bar>" for x y :: real
proof -
  have "\<bar>cos x - cos y\<bar> = 2 * (\<bar>sin ((x + y) / 2)\<bar> * \<bar>sin ((y - x) / 2)\<bar>)"
    by (simp add: cos_diff_cos abs_mult)
  also have "\<dots> \<le> 2 * (1 * \<bar>(y - x) / 2\<bar>)"
    by (intro mult_left_mono mult_mono abs_sin_x_le_abs_x) simp_all
  also have "\<dots> = \<bar>x - y\<bar>" by (simp add: abs_minus_commute)
  finally show ?thesis .
qed

lemma sin_mvt_lt:
  fixes a b :: real
  assumes "a < b"
  shows "\<bar>sin b - sin a - (b - a) * cos a\<bar> \<le> (b - a)\<^sup>2"
proof -
  have "\<exists>z. a < z \<and> z < b \<and> sin b - sin a = (b - a) * cos z"
    by (rule MVT2 [OF assms]) simp
  then obtain z where z: "a < z" "z < b" "sin b - sin a = (b - a) * cos z" by blast
  have "sin b - sin a - (b - a) * cos a = (b - a) * (cos z - cos a)"
    using z(3) by (simp add: algebra_simps)
  then have "\<bar>sin b - sin a - (b - a) * cos a\<bar> = (b - a) * \<bar>cos z - cos a\<bar>"
    using assms by (simp add: abs_mult)
  also have "\<dots> \<le> (b - a) * \<bar>z - a\<bar>"
    using assms by (intro mult_left_mono cos_lipschitz) simp
  also have "\<dots> \<le> (b - a) * (b - a)"
    using assms z by (intro mult_left_mono) simp_all
  finally show ?thesis by (simp add: power2_eq_square)
qed

lemma sin_mvt_gt:
  fixes a b :: real
  assumes "b < a"
  shows "\<bar>sin b - sin a - (b - a) * cos a\<bar> \<le> (b - a)\<^sup>2"
proof -
  have "\<exists>z. b < z \<and> z < a \<and> sin a - sin b = (a - b) * cos z"
    by (rule MVT2 [OF assms]) simp
  then obtain z where z: "b < z" "z < a" "sin a - sin b = (a - b) * cos z" by blast
  have "sin b - sin a - (b - a) * cos a = (a - b) * (cos a - cos z)"
    using z(3) by (simp add: algebra_simps)
  then have "\<bar>sin b - sin a - (b - a) * cos a\<bar> = (a - b) * \<bar>cos a - cos z\<bar>"
    using assms by (simp add: abs_mult)
  also have "\<dots> \<le> (a - b) * \<bar>a - z\<bar>"
    using assms by (intro mult_left_mono cos_lipschitz) simp
  also have "\<dots> \<le> (a - b) * (a - b)"
    using assms z by (intro mult_left_mono) simp_all
  finally show ?thesis by (simp add: power2_eq_square algebra_simps)
qed

lemma sin_linear_error:
  "\<bar>sin b - sin a - (b - a) * cos a\<bar> \<le> (b - a)\<^sup>2" for a b :: real
  using sin_mvt_lt [of a b] sin_mvt_gt [of b a] by (cases a b rule: linorder_cases) simp_all

lemma kepler_residual:
  fixes e m E0 :: real
  assumes e: "\<bar>e\<bar> < 1" and step: "\<bar>newton_r e m E0 - E0\<bar> \<le> 1 / 100000"
  shows "\<bar>newton_r e m E0 - e * sin (newton_r e m E0) - m\<bar> \<le> 1 / 100000"
proof -
  define E where "E = newton_r e m E0"
  define d where "d = E - E0"
  have nz: "1 - e * cos E0 \<noteq> 0" by (rule denom_nonzero [OF e])
  have "d = - (E0 - e * sin E0 - m) / (1 - e * cos E0)"
    by (simp add: d_def E_def newton_r_def minus_divide_left)
  then have f0: "E0 - e * sin E0 - m = - d * (1 - e * cos E0)"
    using nz by (simp add: field_simps)
  have "E - e * sin E - m = (E0 - e * sin E0 - m) + d - e * (sin E - sin E0)"
    by (simp add: d_def algebra_simps)
  also have "\<dots> = - e * (sin E - sin E0 - (E - E0) * cos E0)"
    unfolding f0 by (simp add: d_def algebra_simps)
  finally have "\<bar>E - e * sin E - m\<bar> = \<bar>e\<bar> * \<bar>sin E - sin E0 - (E - E0) * cos E0\<bar>"
    by (simp add: abs_mult)
  also have "\<dots> \<le> 1 * (E - E0)\<^sup>2"
    using e by (intro mult_mono sin_linear_error) simp_all
  also have "\<dots> = \<bar>d\<bar> * \<bar>d\<bar>" by (simp add: d_def power2_eq_square)
  also have "\<dots> \<le> (1 / 100000) * (1 / 100000)"
    using step by (intro mult_mono) (simp_all add: d_def E_def)
  also have "\<dots> \<le> (1 / 100000 :: real)" by simp
  finally show ?thesis by (simp add: E_def)
qed

lemma atan2_unit:
  fixes c s :: real
  assumes "c\<^sup>2 + s\<^sup>2 = 1"
  shows "cos (atan2 s c) = c \<and> sin (atan2 s c) = s"
proof -
  have sq: "c \<noteq> 0 \<Longrightarrow> sqrt (1 + (s / c)\<^sup>2) = 1 / \<bar>c\<bar>"
  proof -
    assume c: "c \<noteq> 0"
    have "1 + (s / c)\<^sup>2 = (c\<^sup>2 + s\<^sup>2) / c\<^sup>2" using c by (simp add: field_simps power2_eq_square)
    also have "\<dots> = (1 / \<bar>c\<bar>)\<^sup>2" using assms by (simp add: power_divide)
    finally show ?thesis by (simp add: real_sqrt_divide)
  qed
  consider "0 < c" | "c < 0" | "c = 0" by linarith
  then show ?thesis
  proof cases
    case 1
    then show ?thesis using sq by (simp add: atan2_def cos_arctan sin_arctan)
  next
    case 2
    then show ?thesis using sq by (simp add: atan2_def cos_arctan sin_arctan)
  next
    case 3
    with assms have "s\<^sup>2 = 1" by simp
    then have "s = 1 \<or> s = -1" by (simp add: power2_eq_1_iff)
    with 3 show ?thesis by (auto simp: atan2_def)
  qed
qed

lemma atan2_sin_cos: "\<exists>k::int. atan2 (sin x) (cos x) = x + 2 * pi * of_int k"
proof -
  have "cos (atan2 (sin x) (cos x)) = cos x \<and> sin (atan2 (sin x) (cos x)) = sin x"
    by (rule atan2_unit) simp
  then show ?thesis using sin_cos_eq_iff [of "atan2 (sin x) (cos x)" x] by simp
qed

lemma atan2_neg_neg:
  "atan2 (- y) (- x) = atan2 y x + pi \<or> atan2 (- y) (- x) = atan2 y x - pi
     \<or> atan2 (- y) (- x) = atan2 y x"
  by (auto simp: atan2_def)

section \<open>Results of the solver\<close>

lemma l1_change_nth:
  assumes "length xs = length ys" "i < length xs"
  shows "\<bar>xs ! i - ys ! i\<bar> \<le> l1_change xs ys"
proof -
  let ?ds = "map abs (map2 (-) xs ys)"
  have "?ds ! i \<in> set ?ds" using assms by (intro nth_mem) simp
  moreover have "\<And>x. x \<in> set ?ds \<Longrightarrow> 0 \<le> x" by auto
  ultimately have "?ds ! i \<le> sum_list ?ds" by (rule member_le_sum_list)
  moreover have "?ds ! i = \<bar>xs ! i - ys ! i\<bar>" using assms by simp
  ultimately show ?thesis by (simp add: l1_change_def)
qed

lemma ea_loop_error:
  "ea_loop e ma nmax ea ea0 nit = Inl err \<Longrightarrow> err = RuntimeError"
proof (induction e ma nmax ea ea0 nit rule: ea_loop.induct)
  case (1 e ma nmax ea ea0 nit)
  from "1.prems" show ?case
  proof (subst (asm) ea_loop.simps, simp split: if_splits)
    assume c: "np_gt (norm1 (arr_sub ea ea0)) (Fin (1 / 100000)) \<or> nit = 0"
      and n: "\<not> nmax \<le> 1 + int nit"
      and r: "ea_loop e ma nmax (newton_step e ma ea) ea (Suc nit) = Inl err"
    show "err = RuntimeError" using "1.IH" c n r by simp
  qed
qed

lemma ea_loop_length:
  "length ma = length ea \<Longrightarrow> ea_loop e ma nmax ea ea0 nit = Inr r \<Longrightarrow> length r = length ea"
proof (induction e ma nmax ea ea0 nit rule: ea_loop.induct)
  case (1 e ma nmax ea ea0 nit)
  from "1.prems"(2) show ?case
  proof (subst (asm) ea_loop.simps, simp split: if_splits)
    assume c: "np_gt (norm1 (arr_sub ea ea0)) (Fin (1 / 100000)) \<or> nit = 0"
      and n: "\<not> nmax \<le> 1 + int nit"
      and r: "ea_loop e ma nmax (newton_step e ma ea) ea (Suc nit) = Inr r"
    have "length r = length (newton_step e ma ea)"
      using "1.IH" c n r "1.prems"(1) by simp
    then show "length r = length ea" using "1.prems"(1) by simp
  qed
qed

lemma true_anomaly_Scalar: "true_anomaly (Scalar x) e n = true_anomaly (Array [x]) e n"
  by (simp add: true_anomaly_def)

lemma ta_of_ea_Fin: "\<bar>e\<bar> < 1 \<Longrightarrow> ta_of_ea (Fin e) (Fin E) = Fin (ta_r e E)"
proof -
  assume "\<bar>e\<bar> < 1"
  then have "\<not> 1 + e < 0" "\<not> 1 - e < 0" by simp_all
  then show ?thesis by (simp add: ta_of_ea_def ta_r_def)
qed

lemma newton_r_circular: "newton_r 0 m E = m"
  by (simp add: newton_r_def)

lemma map2_newton_r_circular: "length ms = length Es \<Longrightarrow> map2 (newton_r 0) ms Es = ms"
  by (induction ms Es rule: list_induct2) (simp_all add: newton_r_circular)

lemma l1_change_same [simp]: "l1_change xs xs = 0"
  by (induction xs) (simp_all add: l1_change_def)

lemma ea_loop_circular:
  assumes "2 \<le> n"
  shows "ea_loop (Fin 0) (map Fin ms) n (map Fin ms) (map Fin ms) 0 = Inr (map Fin ms)"
proof -
  have "ea_loop (Fin 0) (map Fin ms) n (map Fin ms) (map Fin ms) 0
      = ea_loop (Fin 0) (map Fin ms) n (map Fin ms) (map Fin ms) (0 + 1)"
    using assms by (subst ea_loop_Fin) (simp add: newton_step_Fin map2_newton_r_circular)
  also have "\<dots> = Inr (map Fin ms)"
    by (subst ea_loop_Fin) simp
  finally show ?thesis .
qed

lemma ta_r_circular: "\<exists>k::int. ta_r 0 m = m + 2 * pi * of_int k"
proof -
  obtain j :: int where "atan2 (sin (m / 2)) (cos (m / 2)) = m / 2 + 2 * pi * of_int j"
    using atan2_sin_cos [of "m / 2"] by blast
  then have "ta_r 0 m = m + 2 * pi * of_int (2 * j)"
    by (simp add: ta_r_def algebra_simps)
  then show ?thesis by blast
qed

lemma true_anomaly_circular:
  assumes "2 \<le> n" "ms \<noteq> []"
  shows "true_anomaly (Array (map Fin ms)) (PFloat (Fin 0)) n
           = Inr (Array (map (\<lambda>m. Fin (ta_r 0 m)) ms))"
proof -
  have "map (ta_of_ea (Fin 0)) (map Fin ms) = map (\<lambda>m. Fin (ta_r 0 m)) ms"
    unfolding map_map by (rule map_cong) (simp_all add: ta_of_ea_Fin)
  then show ?thesis
    using assms by (simp add: true_anomaly_def ea_loop_circular)
qed

section \<open>The loop and the iterates of the specification\<close>

lemma length_kepler_iter [simp]: "length (kepler_iter e ms j) = length ms"
  by (induction j) simp_all

lemma ea_loop_iter:
  assumes e: "\<bar>e\<bar> < 1"
    and inv: "nit \<noteq> 0 \<longrightarrow> E0s = kepler_iter e ms (nit - 1) \<and> int nit < nmax"
  shows "(ea_loop (Fin e) (map Fin ms) nmax (map Fin (kepler_iter e ms nit)) (map Fin E0s) nit
            = Inl RuntimeError
          \<and> (\<forall>j. nit \<le> j \<and> int j < nmax \<longrightarrow> \<not> converged_at e ms j))
       \<or> (\<exists>j. nit \<le> j \<and> int j < nmax \<and> converged_at e ms j
            \<and> ea_loop (Fin e) (map Fin ms) nmax (map Fin (kepler_iter e ms nit)) (map Fin E0s) nit
                = Inr (map Fin (kepler_iter e ms j))
            \<and> (\<forall>i. nit \<le> i \<and> i < j \<longrightarrow> \<not> converged_at e ms i))"
  using inv
proof (induction "nat (nmax - int nit)" arbitrary: nit E0s rule: less_induct)
  case less
  let ?Es = "kepler_iter e ms nit"
  note unfold = ea_loop_Fin [of e ms nmax ?Es E0s nit]
  show ?case
  proof (cases "1 / 100000 < l1_change ?Es E0s \<or> nit = 0")
    case False
    then have nz: "nit \<noteq> 0" and small: "l1_change ?Es E0s \<le> 1 / 100000" by auto
    with less.prems have "converged_at e ms nit" "int nit < nmax"
      by (simp_all add: converged_at_def)
    moreover have "ea_loop (Fin e) (map Fin ms) nmax (map Fin ?Es) (map Fin E0s) nit = Inr (map Fin ?Es)"
      using False by (simp add: unfold)
    moreover have "\<forall>i. nit \<le> i \<and> i < nit \<longrightarrow> \<not> converged_at e ms i" by auto
    ultimately show ?thesis by blast
  next
    case True
    then have here: "\<not> converged_at e ms nit"
      using less.prems by (auto simp: converged_at_def)
    show ?thesis
    proof (cases "nmax \<le> int (nit + 1)")
      case stop: True
      have "ea_loop (Fin e) (map Fin ms) nmax (map Fin ?Es) (map Fin E0s) nit = Inl RuntimeError"
        using True stop by (simp add: unfold)
      moreover have "\<forall>j. nit \<le> j \<and> int j < nmax \<longrightarrow> \<not> converged_at e ms j"
      proof (intro allI impI)
        fix j assume "nit \<le> j \<and> int j < nmax"
        with stop have "j = nit" by simp
        with here show "\<not> converged_at e ms j" by simp
      qed
      ultimately show ?thesis by blast
    next
      case go: False
      have step: "newton_step (Fin e) (map Fin ms) (map Fin ?Es) = map Fin (kepler_iter e ms (nit + 1))"
        using e by (simp add: newton_step_Fin)
      have eq: "ea_loop (Fin e) (map Fin ms) nmax (map Fin ?Es) (map Fin E0s) nit
          = ea_loop (Fin e) (map Fin ms) nmax (map Fin (kepler_iter e ms (nit + 1))) (map Fin ?Es) (nit + 1)"
        using True go by (simp add: unfold step del: kepler_iter.simps)
      have dec: "nat (nmax - int (nit + 1)) < nat (nmax - int nit)" using go by simp
      have inv': "nit + 1 \<noteq> 0 \<longrightarrow> ?Es = kepler_iter e ms (nit + 1 - 1) \<and> int (nit + 1) < nmax"
        using go by simp
      from less.hyps [OF dec inv'] show ?thesis
      proof (elim disjE conjE exE)
        assume r: "ea_loop (Fin e) (map Fin ms) nmax (map Fin (kepler_iter e ms (nit + 1))) (map Fin ?Es) (nit + 1) = Inl RuntimeError"
          and a: "\<forall>j. nit + 1 \<le> j \<and> int j < nmax \<longrightarrow> \<not> converged_at e ms j"
        have "\<forall>j. nit \<le> j \<and> int j < nmax \<longrightarrow> \<not> converged_at e ms j"
        proof (intro allI impI)
          fix j assume j: "nit \<le> j \<and> int j < nmax"
          show "\<not> converged_at e ms j"
          proof (cases "j = nit")
            case True
            with here show ?thesis by simp
          next
            case False
            with j a show ?thesis by simp
          qed
        qed
        with r eq show ?thesis by simp
      next
        fix j
        assume j: "nit + 1 \<le> j" "int j < nmax" "converged_at e ms j"
          "ea_loop (Fin e) (map Fin ms) nmax (map Fin (kepler_iter e ms (nit + 1))) (map Fin ?Es) (nit + 1)
             = Inr (map Fin (kepler_iter e ms j))"
          and first: "\<forall>i. nit + 1 \<le> i \<and> i < j \<longrightarrow> \<not> converged_at e ms i"
        have "\<forall>i. nit \<le> i \<and> i < j \<longrightarrow> \<not> converged_at e ms i"
        proof (intro allI impI)
          fix i assume i: "nit \<le> i \<and> i < j"
          show "\<not> converged_at e ms i"
          proof (cases "i = nit")
            case True
            with here show ?thesis by simp
          next
            case False
            with i first show ?thesis by simp
          qed
        qed
        with j have "nit \<le> j \<and> int j < nmax \<and> converged_at e ms j
            \<and> ea_loop (Fin e) (map Fin ms) nmax (map Fin ?Es) (map Fin E0s) nit = Inr (map Fin (kepler_iter e ms j))
            \<and> (\<forall>i. nit \<le> i \<and> i < j \<longrightarrow> \<not> converged_at e ms i)"
          using eq by simp
        then show ?thesis by blast
      qed
    qed
  qed
qed

lemma true_anomaly_first:
  assumes e: "\<bar>e\<bar> < 1" and ne: "ms \<noteq> []"
  shows "(true_anomaly (Array (map Fin ms)) (PFloat (Fin e)) n = Inl RuntimeError
          \<and> (\<forall>j. int j < n \<longrightarrow> \<not> converged_at e ms j))
       \<or> (\<exists>j. int j < n \<and> converged_at e ms j
            \<and> true_anomaly (Array (map Fin ms)) (PFloat (Fin e)) n
                = Inr (Array (map (\<lambda>E. Fin (ta_r e E)) (kepler_iter e ms j)))
            \<and> (\<forall>i<j. \<not> converged_at e ms i))"
proof -
  have ta: "map (ta_of_ea (Fin e)) (map Fin Es) = map (\<lambda>E. Fin (ta_r e E)) Es" for Es
    unfolding map_map by (rule map_cong) (simp_all add: ta_of_ea_Fin [OF e])
  have "ea_loop (Fin e) (map Fin ms) n (map Fin ms) (map Fin ms) 0 = Inl RuntimeError
          \<and> (\<forall>j. 0 \<le> j \<and> int j < n \<longrightarrow> \<not> converged_at e ms j)
       \<or> (\<exists>j. 0 \<le> j \<and> int j < n \<and> converged_at e ms j
            \<and> ea_loop (Fin e) (map Fin ms) n (map Fin ms) (map Fin ms) 0 = Inr (map Fin (kepler_iter e ms j))
            \<and> (\<forall>i. 0 \<le> i \<and> i < j \<longrightarrow> \<not> converged_at e ms i))"
    using ea_loop_iter [OF e, of 0 "ms" ms n] by simp
  then show ?thesis
  proof (elim disjE conjE exE)
    assume "ea_loop (Fin e) (map Fin ms) n (map Fin ms) (map Fin ms) 0 = Inl RuntimeError"
      "\<forall>j. 0 \<le> j \<and> int j < n \<longrightarrow> \<not> converged_at e ms j"
    then show ?thesis using ne by (simp add: true_anomaly_def)
  next
    fix j
    assume "int j < n" "converged_at e ms j"
      "ea_loop (Fin e) (map Fin ms) n (map Fin ms) (map Fin ms) 0 = Inr (map Fin (kepler_iter e ms j))"
      "\<forall>i. 0 \<le> i \<and> i < j \<longrightarrow> \<not> converged_at e ms i"
    then have "int j < n \<and> converged_at e ms j \<and> true_anomaly (Array (map Fin ms)) (PFloat (Fin e)) n
                = Inr (Array (map (\<lambda>E. Fin (ta_r e E)) (kepler_iter e ms j)))
                \<and> (\<forall>i<j. \<not> converged_at e ms i)"
      using ne by (simp add: true_anomaly_def ta del: map_map)
    then show ?thesis by blast
  qed
qed

lemma true_anomaly_iter:
  assumes e: "\<bar>e\<bar> < 1" and ne: "ms \<noteq> []"
  shows "(true_anomaly (Array (map Fin ms)) (PFloat (Fin e)) n = Inl RuntimeError
          \<and> (\<forall>j. int j < n \<longrightarrow> \<not> converged_at e ms j))
       \<or> (\<exists>j. int j < n \<and> converged_at e ms j
            \<and> true_anomaly (Array (map Fin ms)) (PFloat (Fin e)) n
                = Inr (Array (map (\<lambda>E. Fin (ta_r e E)) (kepler_iter e ms j))))"
  using true_anomaly_first [OF e ne, of n] by blast

lemma converged_residual:
  assumes e: "\<bar>e\<bar> < 1" and c: "converged_at e ms j" and i: "i < length ms"
  shows "\<bar>kepler_iter e ms j ! i - e * sin (kepler_iter e ms j ! i) - ms ! i\<bar> \<le> 1 / 100000"
proof -
  from c obtain j' where j: "j = Suc j'" by (cases j) (simp_all add: converged_at_def)
  let ?E0 = "kepler_iter e ms j'"
  have Ei: "kepler_iter e ms j ! i = newton_r e (ms ! i) (?E0 ! i)"
    using i by (simp add: j)
  have "\<bar>kepler_iter e ms j ! i - ?E0 ! i\<bar> \<le> l1_change (kepler_iter e ms j) ?E0"
    using i by (intro l1_change_nth) simp_all
  also have "\<dots> \<le> 1 / 100000" using c by (simp add: converged_at_def j)
  finally have "\<bar>newton_r e (ms ! i) (?E0 ! i) - ?E0 ! i\<bar> \<le> 1 / 100000" by (simp only: Ei)
  from kepler_residual [OF e this] show ?thesis by (simp only: Ei)
qed

section \<open>Shifting the mean anomaly by a full turn\<close>

lemma newton_r_shift: "newton_r e (shift2pi m) (shift2pi E) = shift2pi (newton_r e m E)"
  by (simp add: newton_r_def shift2pi_def)

lemma map2_newton_r_shift:
  "map2 (newton_r e) (map shift2pi ms) (map shift2pi Es) = map shift2pi (map2 (newton_r e) ms Es)"
proof (induction ms arbitrary: Es)
  case Nil
  then show ?case by simp
next
  case (Cons m ms)
  then show ?case by (cases Es) (simp_all add: newton_r_shift)
qed

lemma l1_change_shift: "l1_change (map shift2pi xs) (map shift2pi ys) = l1_change xs ys"
proof (induction xs arbitrary: ys)
  case Nil
  then show ?case by (simp add: l1_change_def)
next
  case (Cons x xs)
  then show ?case by (cases ys) (simp_all add: l1_change_def shift2pi_def)
qed

lemma map_Fin_shift: "map (\<lambda>x. np_add x (Fin (2 * pi))) (map Fin xs) = map Fin (map shift2pi xs)"
  by (induction xs) (simp_all add: shift2pi_def)

lemma ea_loop_shift:
  assumes e: "\<bar>e\<bar> < 1"
  shows "length Es = length ms \<Longrightarrow>
    ea_loop (Fin e) (map Fin (map shift2pi ms)) n (map Fin (map shift2pi Es))
        (map Fin (map shift2pi E0s)) nit
      = map_sum id (map (\<lambda>x. np_add x (Fin (2 * pi))))
          (ea_loop (Fin e) (map Fin ms) n (map Fin Es) (map Fin E0s) nit)"
proof (induction "nat (n - int nit)" arbitrary: nit Es E0s rule: less_induct)
  case less
  note u1 = ea_loop_Fin [of e ms n Es E0s nit]
  note u2 = ea_loop_Fin [of e "map shift2pi ms" n "map shift2pi Es" "map shift2pi E0s" nit]
  show ?case
  proof (cases "1 / 100000 < l1_change Es E0s \<or> nit = 0")
    case False
    then show ?thesis by (simp add: u1 u2 l1_change_shift map_Fin_shift del: map_map)
  next
    case True
    show ?thesis
    proof (cases "n \<le> int (nit + 1)")
      case stop: True
      with True show ?thesis by (simp add: u1 u2 l1_change_shift del: map_map)
    next
      case go: False
      have dec: "nat (n - int (nit + 1)) < nat (n - int nit)" using go by simp
      have len: "length (map2 (newton_r e) ms Es) = length ms" using less.prems by simp
      have s1: "newton_step (Fin e) (map Fin ms) (map Fin Es) = map Fin (map2 (newton_r e) ms Es)"
        using e less.prems by (simp add: newton_step_Fin)
      have s2: "newton_step (Fin e) (map Fin (map shift2pi ms)) (map Fin (map shift2pi Es))
                  = map Fin (map shift2pi (map2 (newton_r e) ms Es))"
        using e less.prems by (simp add: newton_step_Fin map2_newton_r_shift del: map_map)
      have "ea_loop (Fin e) (map Fin (map shift2pi ms)) n (map Fin (map shift2pi Es))
              (map Fin (map shift2pi E0s)) nit
          = ea_loop (Fin e) (map Fin (map shift2pi ms)) n
              (map Fin (map shift2pi (map2 (newton_r e) ms Es))) (map Fin (map shift2pi Es)) (nit + 1)"
        using True go by (simp add: u2 l1_change_shift s2 del: map_map)
      also have "\<dots> = map_sum id (map (\<lambda>x. np_add x (Fin (2 * pi))))
          (ea_loop (Fin e) (map Fin ms) n (map Fin (map2 (newton_r e) ms Es)) (map Fin Es) (nit + 1))"
        by (rule less.hyps [OF dec len])
      also have "\<dots> = map_sum id (map (\<lambda>x. np_add x (Fin (2 * pi))))
          (ea_loop (Fin e) (map Fin ms) n (map Fin Es) (map Fin E0s) nit)"
        using True go by (simp add: u1 s1 del: map_map)
      finally show ?thesis .
    qed
  qed
qed

lemma ta_r_shift:
  "ta_r e (shift2pi E) = ta_r e E + 2 * pi \<or> ta_r e (shift2pi E) = ta_r e E - 2 * pi
     \<or> ta_r e (shift2pi E) = ta_r e E"
proof -
  have h: "(E + 2 * pi) / 2 = E / 2 + pi" by simp
  have "ta_r e (shift2pi E)
      = 2 * atan2 (- (sqrt (1 + e) * sin (E / 2))) (- (sqrt (1 - e) * cos (E / 2)))"
    unfolding ta_r_def shift2pi_def h by simp
  with atan2_neg_neg [of "sqrt (1 + e) * sin (E / 2)" "sqrt (1 - e) * cos (E / 2)"]
  show ?thesis by (auto simp: ta_r_def)
qed

lemma cos_shift_cases:
  fixes a b :: real
  assumes "a = b + 2 * pi \<or> a = b - 2 * pi \<or> a = b"
  shows "cos (a + w) = cos (b + w)"
  using assms
proof (elim disjE)
  assume "a = b + 2 * pi"
  then have "a + w = (b + w) + 2 * pi" by simp
  then show ?thesis by (simp only: cos_periodic)
next
  assume "a = b - 2 * pi"
  then have "b + w = (a + w) + 2 * pi" by simp
  then show ?thesis by (simp only: cos_periodic)
next
  assume "a = b"
  then show ?thesis by simp
qed

lemma rv_value_shift:
  "rv_value g k (Fin (ta_r e (shift2pi E))) w e' = rv_value g k (Fin (ta_r e E)) w e'"
proof (cases w)
  case (Fin x)
  then show ?thesis
    using cos_shift_cases [OF ta_r_shift [of e E], of x] by (simp add: rv_value_def)
qed (simp_all add: rv_value_def)

lemma radial_velocity_cong:
  assumes "\<And>g' k' w' e''. map (\<lambda>x. rv_value g' k' x w' e'') xs = map (\<lambda>x. rv_value g' k' x w' e'') ys"
  shows "radial_velocity g k (Array xs) w e' = radial_velocity g k (Array ys) w e'"
  using assms by (auto simp: radial_velocity_def bind_err_def split: sum.splits)

lemma true_anomaly_rv_shift:
  assumes e: "\<bar>e\<bar> < 1"
  shows "bind_err (true_anomaly (Array (map Fin (map shift2pi ms))) (PFloat (Fin e)) n)
           (\<lambda>ta. radial_velocity g k ta w e')
       = bind_err (true_anomaly (Array (map Fin ms)) (PFloat (Fin e)) n)
           (\<lambda>ta. radial_velocity g k ta w e')"
proof (cases "ms = []")
  case True
  then show ?thesis by (simp add: true_anomaly_def)
next
  case ne: False
  have sh: "ea_loop (Fin e) (map Fin (map shift2pi ms)) n (map Fin (map shift2pi ms))
        (map Fin (map shift2pi ms)) 0
      = map_sum id (map (\<lambda>x. np_add x (Fin (2 * pi))))
          (ea_loop (Fin e) (map Fin ms) n (map Fin ms) (map Fin ms) 0)"
    by (rule ea_loop_shift [OF e]) simp
  have "ea_loop (Fin e) (map Fin ms) n (map Fin ms) (map Fin ms) 0 = Inl RuntimeError
      \<or> (\<exists>j. ea_loop (Fin e) (map Fin ms) n (map Fin ms) (map Fin ms) 0
               = Inr (map Fin (kepler_iter e ms j)))"
    using ea_loop_iter [OF e, of 0 ms ms n] by auto
  then show ?thesis
  proof (elim disjE exE)
    assume r: "ea_loop (Fin e) (map Fin ms) n (map Fin ms) (map Fin ms) 0 = Inl RuntimeError"
    with sh ne show ?thesis by (simp add: true_anomaly_def)
  next
    fix j
    assume r: "ea_loop (Fin e) (map Fin ms) n (map Fin ms) (map Fin ms) 0
                 = Inr (map Fin (kepler_iter e ms j))"
    let ?Ef = "kepler_iter e ms j"
    have t1: "true_anomaly (Array (map Fin ms)) (PFloat (Fin e)) n
        = Inr (Array (map (ta_of_ea (Fin e)) (map Fin ?Ef)))"
      using r ne by (simp add: true_anomaly_def del: map_map)
    have t2: "true_anomaly (Array (map Fin (map shift2pi ms))) (PFloat (Fin e)) n
        = Inr (Array (map (ta_of_ea (Fin e)) (map Fin (map shift2pi ?Ef))))"
      using r sh ne by (simp add: true_anomaly_def map_Fin_shift del: map_map)
    have "radial_velocity g k (Array (map (ta_of_ea (Fin e)) (map Fin (map shift2pi ?Ef)))) w e'
        = radial_velocity g k (Array (map (ta_of_ea (Fin e)) (map Fin ?Ef))) w e'"
      by (rule radial_velocity_cong) (simp add: ta_of_ea_Fin [OF e] rv_value_shift)
    with t1 t2 show ?thesis by simp
  qed
qed

section \<open>Convergence for eccentricities up to one half\<close>

text \<open>
  For \<open>0 \<le> e \<le> 1/2\<close> the derivative \<open>1 - e cos E\<close> is at least \<open>1/2\<close>, the start \<open>E\<^sub>0 = M\<close> is
  within \<open>1/2\<close> of the root of Kepler's equation, and each pass squares the distance to the
  root; six passes bring an array of up to 10000 elements below the tolerance.
\<close>

lemma kepler_root:
  fixes e m :: real
  assumes "\<bar>e\<bar> < 1"
  shows "\<exists>Es. Es - e * sin Es = m"
proof -
  have b: "\<bar>e * sin x\<bar> \<le> 1" for x
  proof -
    have "\<bar>e * sin x\<bar> = \<bar>e\<bar> * \<bar>sin x\<bar>" by (simp add: abs_mult)
    also have "\<dots> \<le> 1 * 1" using assms by (intro mult_mono) simp_all
    finally show ?thesis by simp
  qed
  have lo: "(m - 1) - e * sin (m - 1) \<le> m" using b [of "m - 1"] by (simp add: abs_le_iff)
  have hi: "m \<le> (m + 1) - e * sin (m + 1)" using b [of "m + 1"] by (simp add: abs_le_iff)
  have "\<exists>x. m - 1 \<le> x \<and> x \<le> m + 1 \<and> x - e * sin x = m"
    using lo hi by (intro IVT [of "\<lambda>x. x - e * sin x" "m - 1" m "m + 1"]) simp_all
  then show ?thesis by blast
qed

lemma newton_error:
  fixes e m E Es :: real
  assumes e: "0 \<le> e" "e \<le> 1 / 2" and root: "Es - e * sin Es = m"
  shows "\<bar>newton_r e m E - Es\<bar> \<le> (E - Es)\<^sup>2"
proof -
  define D where "D = 1 - e * cos E"
  have "\<bar>e * cos E\<bar> = \<bar>e\<bar> * \<bar>cos E\<bar>" by (simp add: abs_mult)
  also have "\<dots> \<le> (1 / 2) * 1" using e by (intro mult_mono) simp_all
  finally have "\<bar>e * cos E\<bar> \<le> 1 / 2" by simp
  then have D: "1 / 2 \<le> D" by (simp add: D_def abs_le_iff)
  have m: "m = Es - e * sin Es" using root by simp
  have "(newton_r e m E - Es) * D = (E - Es) * D - (E - e * sin E - m)"
    using D by (simp add: newton_r_def D_def [symmetric] field_simps)
  also have "\<dots> = - e * (sin Es - sin E - (Es - E) * cos E)"
    unfolding m D_def by (simp add: algebra_simps)
  finally have prod: "(newton_r e m E - Es) * D = - e * (sin Es - sin E - (Es - E) * cos E)" .
  have "\<bar>newton_r e m E - Es\<bar> * D = \<bar>(newton_r e m E - Es) * D\<bar>"
    using D by (simp add: abs_mult)
  also have "\<dots> = \<bar>- e * (sin Es - sin E - (Es - E) * cos E)\<bar>" by (simp only: prod)
  also have "\<dots> = e * \<bar>sin Es - sin E - (Es - E) * cos E\<bar>"
    using e by (simp add: abs_mult)
  finally have "\<bar>newton_r e m E - Es\<bar> * D = e * \<bar>sin Es - sin E - (Es - E) * cos E\<bar>" .
  also have "\<dots> \<le> (1 / 2) * (Es - E)\<^sup>2"
    using e by (intro mult_mono sin_linear_error) simp_all
  also have "\<dots> = (1 / 2) * (E - Es)\<^sup>2" by (simp only: power2_commute [of Es E])
  also have "\<dots> \<le> D * (E - Es)\<^sup>2"
    using D by (intro mult_right_mono) simp_all
  finally have "\<bar>newton_r e m E - Es\<bar> * D \<le> (E - Es)\<^sup>2 * D" by (simp add: mult.commute)
  then show ?thesis using D by simp
qed

lemma iter_error:
  assumes e: "0 \<le> e" "e \<le> 1 / 2" and i: "i < length ms" and root: "Es - e * sin Es = ms ! i"
  shows "\<bar>kepler_iter e ms j ! i - Es\<bar> \<le> (1 / 2) ^ (2 ^ j)"
proof (induction j)
  case 0
  have "ms ! i - Es = - (e * sin Es)" using root by simp
  then have "\<bar>ms ! i - Es\<bar> = \<bar>e\<bar> * \<bar>sin Es\<bar>" by (simp add: abs_mult)
  also have "\<dots> \<le> (1 / 2) * 1" using e by (intro mult_mono) simp_all
  finally show ?case by simp
next
  case (Suc j)
  let ?E = "kepler_iter e ms j ! i"
  have "kepler_iter e ms (Suc j) ! i = newton_r e (ms ! i) ?E" using i by simp
  then have "\<bar>kepler_iter e ms (Suc j) ! i - Es\<bar> \<le> (?E - Es)\<^sup>2"
    using newton_error [OF e root, of ?E] by simp
  also have "\<dots> = \<bar>?E - Es\<bar>\<^sup>2" by simp
  also have "\<dots> \<le> ((1 / 2) ^ (2 ^ j))\<^sup>2"
    using Suc.IH by (intro power_mono) simp_all
  also have "\<dots> = (1 / 2) ^ (2 ^ Suc j)" by (simp add: power_mult [symmetric] mult.commute)
  finally show ?case .
qed

lemma l1_change_bound:
  assumes "length xs = length ys" "\<forall>i<length xs. \<bar>xs ! i - ys ! i\<bar> \<le> c"
  shows "l1_change xs ys \<le> real (length xs) * c"
  using assms
proof (induction xs ys rule: list_induct2)
  case Nil
  then show ?case by (simp add: l1_change_def)
next
  case (Cons x xs y ys)
  have hd: "\<bar>x - y\<bar> \<le> c" using Cons.prems by (auto dest: spec [of _ 0])
  have "\<forall>i<length xs. \<bar>xs ! i - ys ! i\<bar> \<le> c"
  proof (intro allI impI)
    fix i assume "i < length xs"
    then show "\<bar>xs ! i - ys ! i\<bar> \<le> c" using Cons.prems by (auto dest: spec [of _ "Suc i"])
  qed
  then have "l1_change xs ys \<le> real (length xs) * c" by (rule Cons.IH)
  moreover have "l1_change (x # xs) (y # ys) = \<bar>x - y\<bar> + l1_change xs ys"
    by (simp add: l1_change_def)
  ultimately show ?case using hd by (simp add: algebra_simps)
qed

lemma converges_by_pass_six:
  assumes e: "0 \<le> e" "e \<le> 1 / 2" and len: "length ms \<le> 10000"
  shows "converged_at e ms 6"
proof -
  have el: "\<forall>i<length (kepler_iter e ms 6).
      \<bar>kepler_iter e ms 6 ! i - kepler_iter e ms 5 ! i\<bar> \<le> 2 * (1 / 2) ^ 32"
  proof (intro allI impI)
    fix i assume "i < length (kepler_iter e ms 6)"
    then have i: "i < length ms" by simp
    have "\<bar>e\<bar> < 1" using e by simp
    from kepler_root [OF this, of "ms ! i"] obtain Es where root: "Es - e * sin Es = ms ! i" ..
    have a: "\<bar>kepler_iter e ms 6 ! i - Es\<bar> \<le> (1 / 2) ^ (2 ^ 6)"
      by (rule iter_error [OF e i root])
    have b: "\<bar>kepler_iter e ms 5 ! i - Es\<bar> \<le> (1 / 2) ^ (2 ^ 5)"
      by (rule iter_error [OF e i root])
    have p6: "(1 / 2 :: real) ^ (2 ^ 6) \<le> (1 / 2) ^ 32" by (simp add: power_divide)
    have p5: "(1 / 2 :: real) ^ (2 ^ 5) = (1 / 2) ^ 32" by simp
    have "\<bar>kepler_iter e ms 6 ! i - kepler_iter e ms 5 ! i\<bar>
        \<le> \<bar>kepler_iter e ms 6 ! i - Es\<bar> + \<bar>kepler_iter e ms 5 ! i - Es\<bar>" by linarith
    also have "\<dots> \<le> (1 / 2) ^ 32 + (1 / 2) ^ 32" using a b p6 p5 by (intro add_mono) linarith+
    finally show "\<bar>kepler_iter e ms 6 ! i - kepler_iter e ms 5 ! i\<bar> \<le> 2 * (1 / 2) ^ 32"
      by simp
  qed
  have "l1_change (kepler_iter e ms 6) (kepler_iter e ms 5)
          \<le> real (length (kepler_iter e ms 6)) * (2 * (1 / 2) ^ 32)"
    by (rule l1_change_bound [OF _ el]) simp
  also have "\<dots> \<le> 10000 * (2 * (1 / 2) ^ 32)"
    using len by (intro mult_right_mono) simp_all
  also have "\<dots> \<le> (1 / 100000 :: real)" by (simp add: power_divide)
  finally have "l1_change (kepler_iter e ms 6) (kepler_iter e ms (6 - 1)) \<le> 1 / 100000"
    by simp
  then show ?thesis by (simp add: converged_at_def)
qed

lemma true_anomaly_returns:
  assumes e: "0 \<le> e" "e \<le> 1 / 2" and len: "ms \<noteq> []" "length ms \<le> 10000" and n: "7 \<le> n"
  shows "\<exists>r. true_anomaly (Array (map Fin ms)) (PFloat (Fin e)) n = Inr r"
proof -
  have e1: "\<bar>e\<bar> < 1" using e by simp
  have c: "converged_at e ms 6" by (rule converges_by_pass_six [OF e len(2)])
  have "int (6::nat) < n" using n by simp
  with c have "\<not> (\<forall>j. int j < n \<longrightarrow> \<not> converged_at e ms j)" by blast
  with true_anomaly_iter [OF e1 len(1), of n] show ?thesis by blast
qed

section \<open>A cycle of the Newton iteration\<close>

text \<open>
  With \<open>\<beta> = arctan (4/17)\<close>, the mean anomaly \<open>m_cycle = 3 pi / 2 - \<beta> - 17/4\<close> and the
  eccentricity \<open>e_cycle\<close>, which lies in \<open>(0, 1)\<close>, the update maps \<open>M\<close> to \<open>M + 17/4\<close> and
  \<open>M + 17/4\<close> back to \<open>M\<close>: every pass changes the eccentric anomaly by \<open>17/4\<close>.
\<close>

lemma arctan_bounds:
  fixes x :: real
  assumes "0 < x"
  shows "x / (1 + x\<^sup>2) < arctan x" and "arctan x < x"
proof -
  have "\<exists>z. 0 < z \<and> z < x \<and> arctan x - arctan 0 = (x - 0) * inverse (1 + z\<^sup>2)"
    by (rule MVT2 [OF assms]) (rule DERIV_arctan)
  then obtain z where z: "0 < z" "z < x" and eq: "arctan x = x * inverse (1 + z\<^sup>2)"
    by auto
  have z2: "0 < z\<^sup>2" using z(1) by simp
  have zx: "z\<^sup>2 < x\<^sup>2" using z by (intro power_strict_mono) simp_all
  have "1 < 1 + z\<^sup>2" using z2 by simp
  then have "inverse (1 + z\<^sup>2) < 1" by (simp only: inverse_less_1_iff) simp
  then have "x * inverse (1 + z\<^sup>2) < x * 1" using assms by (intro mult_strict_left_mono)
  then show "arctan x < x" by (simp add: eq)
  have p: "0 < 1 + z\<^sup>2" by (simp add: add_pos_nonneg)
  have q: "1 + z\<^sup>2 < 1 + x\<^sup>2" using zx by simp
  have "inverse (1 + x\<^sup>2) < inverse (1 + z\<^sup>2)"
    by (rule less_imp_inverse_less [OF q p])
  then have "x * inverse (1 + x\<^sup>2) < x * inverse (1 + z\<^sup>2)"
    using assms by (intro mult_strict_left_mono)
  then show "x / (1 + x\<^sup>2) < arctan x" by (simp add: eq divide_inverse)
qed

lemma pi_bounds: "3 < pi" "pi < 16 / 5"
proof -
  have a: "arctan (1 / 5) < 1 / 5" "(1 / 5) / (1 + (1 / 5)\<^sup>2) < arctan (1 / 5 :: real)"
    using arctan_bounds [of "1 / 5"] by simp_all
  have b: "arctan (1 / 239) < 1 / 239" "0 < arctan (1 / 239 :: real)"
    using arctan_bounds [of "1 / 239"] by simp_all
  have c: "(1 / 5) / (1 + (1 / 5)\<^sup>2) = (5 / 26 :: real)" by (simp add: power2_eq_square)
  from machin a(1) b(2) show "pi < 16 / 5" by linarith
  from machin a(2) b(1) c show "3 < pi" by linarith
qed

lemma beta_bounds: "68 / 305 < arctan (4 / 17 :: real)" "arctan (4 / 17 :: real) < 4 / 17"
proof -
  have "(4 / 17) / (1 + (4 / 17)\<^sup>2) = (68 / 305 :: real)" by (simp add: power2_eq_square)
  then show "68 / 305 < arctan (4 / 17 :: real)" "arctan (4 / 17 :: real) < 4 / 17"
    using arctan_bounds [of "4 / 17"] by simp_all
qed

lemma m_cycle_range: "0 < m_cycle" "m_cycle < 2 * arctan (4 / 17)" "m_cycle < 1"
  using pi_bounds beta_bounds unfolding m_cycle_def by linarith+

lemma beta_sin_cos:
  "0 < sin (arctan (4 / 17 :: real))" "cos (arctan (4 / 17 :: real)) = 17 / 4 * sin (arctan (4 / 17))"
proof -
  let ?b = "arctan (4 / 17 :: real)"
  have c: "0 < cos ?b" by (rule cos_gt_zero_pi [OF arctan_lbound arctan_ubound])
  have "tan ?b = 4 / 17" by (rule tan_arctan)
  then have t: "sin ?b / cos ?b = 4 / 17" by (simp add: tan_def)
  then have "sin ?b = 4 / 17 * cos ?b" using c by (simp add: field_simps)
  then show "cos ?b = 17 / 4 * sin ?b" by simp
  with c show "0 < sin ?b" by simp
qed

lemma cycle_denominator: "17 / 4 < sin m_cycle + 17 / 4 * cos m_cycle"
proof -
  define h where "h = m_cycle / 2"
  let ?b = "arctan (4 / 17 :: real)"
  have h: "0 < h" "h < ?b" using m_cycle_range by (simp_all add: h_def)
  have bpi: "?b < pi / 2" by (rule arctan_ubound)
  have s: "0 < sin h" using h bpi pi_bounds by (intro sin_gt_zero) linarith+
  have c: "0 < cos h" using h bpi by (intro cos_gt_zero) linarith+
  have "tan h < tan ?b" using h bpi by (intro tan_monotone) linarith+
  then have "tan h < 4 / 17" by (simp only: tan_arctan)
  then have "sin h / cos h < 4 / 17" by (simp only: tan_def)
  then have lt: "17 / 4 * sin h < cos h" using c by (simp add: field_simps)
  have m: "m_cycle = 2 * h" by (simp add: h_def)
  have sd: "sin (2 * h) = 2 * sin h * cos h" by (rule sin_double)
  have cd: "cos (2 * h) = 1 - 2 * sin h ^ 2" by (rule cos_double_sin)
  have "sin m_cycle + 17 / 4 * cos m_cycle - 17 / 4 = 2 * sin h * (cos h - 17 / 4 * sin h)"
    unfolding m sd cd by (simp add: field_simps power2_eq_square)
  moreover have "0 < 2 * sin h * (cos h - 17 / 4 * sin h)" using s lt by simp
  ultimately show ?thesis by linarith
qed

lemma e_cycle_range: "0 < e_cycle" "e_cycle < 1"
  using cycle_denominator by (simp_all add: e_cycle_def)

lemma cycle_step_out: "newton_r e_cycle m_cycle m_cycle = m_cycle + 17 / 4"
proof -
  define D where "D = sin m_cycle + 17 / 4 * cos m_cycle"
  have D: "17 / 4 < D" using cycle_denominator by (simp add: D_def)
  have s: "0 < sin m_cycle" using m_cycle_range pi_bounds by (intro sin_gt_zero) linarith+
  have e: "e_cycle = (17 / 4) / D" by (simp add: e_cycle_def D_def)
  have "1 - e_cycle * cos m_cycle = sin m_cycle / D"
    using D by (simp add: e D_def field_simps)
  moreover have "e_cycle * sin m_cycle = 17 / 4 * (sin m_cycle / D)" by (simp add: e)
  ultimately have "e_cycle * sin m_cycle / (1 - e_cycle * cos m_cycle) = 17 / 4"
    using s D by simp
  then show ?thesis by (simp add: newton_r_def)
qed

lemma cycle_step_back: "newton_r e_cycle m_cycle (m_cycle + 17 / 4) = m_cycle"
proof -
  let ?b = "arctan (4 / 17 :: real)"
  have E1: "m_cycle + 17 / 4 = 3 * pi / 2 - ?b" by (simp add: m_cycle_def)
  have s32: "sin (3 * pi / 2) = - 1" using sin_3over2_pi by (simp only: times_divide_eq_left)
  have c32: "cos (3 * pi / 2) = 0" using cos_3over2_pi by (simp only: times_divide_eq_left)
  have sinE: "sin (3 * pi / 2 - ?b) = - cos ?b" unfolding sin_diff s32 c32 by simp
  have cosE: "cos (3 * pi / 2 - ?b) = - sin ?b" unfolding cos_diff s32 c32 by simp
  have pos: "0 < 1 + e_cycle * sin ?b"
    using e_cycle_range(1) beta_sin_cos(1) by (simp add: add_pos_pos)
  define Y where "Y = 1 + e_cycle * sin ?b"
  have Y: "0 < Y" using pos by (simp add: Y_def)
  have num: "3 * pi / 2 - ?b - e_cycle * (- cos ?b) - m_cycle = 17 / 4 * Y"
    unfolding beta_sin_cos(2) Y_def by (simp add: m_cycle_def algebra_simps)
  have den: "1 - e_cycle * (- sin ?b) = Y" by (simp add: Y_def)
  have "(3 * pi / 2 - ?b - e_cycle * (- cos ?b) - m_cycle) / (1 - e_cycle * (- sin ?b)) = 17 / 4"
    unfolding num den using Y by simp
  then have "newton_r e_cycle m_cycle (3 * pi / 2 - ?b) = 3 * pi / 2 - ?b - 17 / 4"
    unfolding newton_r_def sinE cosE by (simp only:)
  then show ?thesis unfolding E1 by (simp add: m_cycle_def)
qed

lemma cycle_iter:
  "kepler_iter e_cycle [m_cycle] j = [if even j then m_cycle else m_cycle + 17 / 4]"
  by (induction j) (simp_all add: cycle_step_out cycle_step_back)

lemma cycle_never_converges: "\<not> converged_at e_cycle [m_cycle] j"
proof (cases j)
  case 0
  then show ?thesis by (simp add: converged_at_def)
next
  case (Suc k)
  have "l1_change (kepler_iter e_cycle [m_cycle] (Suc k)) (kepler_iter e_cycle [m_cycle] k) = 17 / 4"
    unfolding cycle_iter by (simp add: l1_change_def)
  then show ?thesis by (simp add: converged_at_def Suc)
qed

lemma cycle_raises:
  "true_anomaly (Array (map Fin [m_cycle])) (PFloat (Fin e_cycle)) n = Inl RuntimeError"
proof -
  have e: "\<bar>e_cycle\<bar> < 1" using e_cycle_range by simp
  from true_anomaly_iter [OF e, of "[m_cycle]" n] cycle_never_converges show ?thesis by auto
qed

section \<open>The Kepler solver\<close>




text \<open>
  C3, as amended. For an eccentricity of absolute value below 1 and a non-empty array of
  finite mean anomalies, \<open>true_anomaly\<close> either raises RuntimeError, and then no pass before
  the cap has converged, or returns the true anomalies of the iterate of a converged pass
  \<open>j\<close> below the cap. A scalar argument is treated as the one-element array. An empty array
  raises ValueError and a list raises TypeError, whatever the eccentricity and the cap.
\<close>

theorem true_anomaly_converged_or_raises:
  assumes "\<bar>e\<bar> < 1" "ms \<noteq> []"
  shows "((true_anomaly (Array (map Fin ms)) (PFloat (Fin e)) n = Inl RuntimeError
            \<and> (\<forall>j. int j < n \<longrightarrow> \<not> converged_at e ms j))
          \<or> (\<exists>j. int j < n \<and> converged_at e ms j
                \<and> true_anomaly (Array (map Fin ms)) (PFloat (Fin e)) n
                    = Inr (Array (map (\<lambda>E. Fin (ta_r e E)) (kepler_iter e ms j)))))
       \<and> true_anomaly (Scalar (Fin m)) (PFloat (Fin e)) n
           = true_anomaly (Array (map Fin [m])) (PFloat (Fin e)) n
       \<and> true_anomaly (Array []) e' n' = Inl ValueError
       \<and> true_anomaly (PyList xs) e' n' = Inl TypeError"
  using true_anomaly_iter [OF assms, of n] by (simp add: true_anomaly_Scalar true_anomaly_def)

theorem true_anomaly_converged_or_raises_witness:
  "\<bar>0::real\<bar> < 1 \<and> [0::real] \<noteq> []
   \<and> true_anomaly (Array (map Fin [0])) (PFloat (Fin 0)) 1 = Inl RuntimeError
   \<and> \<not> converged_at 0 [0] 0
   \<and> true_anomaly (Array (map Fin [0])) (PFloat (Fin 0)) 2 = Inr (Array [Fin 0])
   \<and> true_anomaly (Array []) (PFloat (Fin 0)) 2 = Inl ValueError
   \<and> true_anomaly (PyList [Fin 0]) (PFloat (Fin 0)) 2 = Inl TypeError"
proof -
  have h: "\<bar>0::real\<bar> < 1" "[0::real] \<noteq> []" by simp_all
  have r1: "true_anomaly (Array (map Fin [0])) (PFloat (Fin 0)) 1 = Inl RuntimeError"
    by (simp add: true_anomaly_def ea_loop.simps)
  have r2: "true_anomaly (Array (map Fin [0])) (PFloat (Fin 0)) 2 = Inr (Array [Fin 0])"
    by (simp add: true_anomaly_def ea_loop.simps newton_step_def norm1_def ta_of_ea_def atan2_def)
  note a = true_anomaly_converged_or_raises [OF h, of 1 0 "PFloat (Fin 0)" 2 "[Fin 0]"]
  from a r1 have "\<not> converged_at 0 [0] 0" by auto
  moreover from a have "true_anomaly (Array []) (PFloat (Fin 0)) 2 = Inl ValueError"
    "true_anomaly (PyList [Fin 0]) (PFloat (Fin 0)) 2 = Inl TypeError"
    by blast+
  ultimately show ?thesis using h r1 r2 by blast
qed

text \<open>
  C3 as stated fails: with eccentricity 1 and mean anomaly 0 the first pass divides zero
  by zero, the comparison with NaN ends the loop and NaN is returned without an error.
\<close>

theorem true_anomaly_unconverged_counterexample:
  "true_anomaly (Array [Fin 0]) (PFloat (Fin 1)) 10000 = Inr (Array [NaN])"
  by (simp add: true_anomaly_def ea_loop.simps newton_step_def norm1_def ta_of_ea_def np_sub_def)

section \<open>The radial-velocity model\<close>

lemma ma_value_shift:
  "P \<noteq> 0 \<Longrightarrow> ma_value (Fin (t + P)) (Fin t0) (Fin P) = Fin (shift2pi (2 * pi * (t - t0) / P))"
  by (simp add: ma_value_def shift2pi_def field_simps)

lemma ma_value_Fin:
  "P \<noteq> 0 \<Longrightarrow> ma_value (Fin t) (Fin t0) (Fin P) = Fin (2 * pi * (t - t0) / P)"
  by (simp add: ma_value_def)

lemma rv_at_times_Array_shift:
  assumes "period self = PFloat (Fin P)" "P \<noteq> 0" "ecc self = PFloat (Fin e)" "\<bar>e\<bar> < 1"
    "tau self = PFloat (Fin t0)"
  shows "rv_at_times self (Array (map (\<lambda>t. Fin (t + P)) ts)) = rv_at_times self (Array (map Fin ts))"
proof -
  let ?ms = "map (\<lambda>t. 2 * pi * (t - t0) / P) ts"
  have m1: "mean_anomaly (Array (map Fin ts)) (tau self) (period self) = Inr (Array (map Fin ?ms))"
    using assms by (simp add: mean_anomaly_def ma_value_Fin comp_def)
  have m2: "mean_anomaly (Array (map (\<lambda>t. Fin (t + P)) ts)) (tau self) (period self)
      = Inr (Array (map Fin (map shift2pi ?ms)))"
    using assms by (simp add: mean_anomaly_def ma_value_shift comp_def)
  show ?thesis
    unfolding rv_at_times_def m1 m2 bind_err_simps assms(3)
    by (rule true_anomaly_rv_shift [OF assms(4)])
qed


lemma rv_example_run: "rv_at_times rv_example (Scalar (Fin 0)) = Inr (Array [Fin 1])"
  by (simp add: rv_example_def rv_at_times_def RV_init_def mean_anomaly_def ma_value_def
      true_anomaly_def ea_loop.simps newton_step_def norm1_def ta_of_ea_def atan2_def
      radial_velocity_def rv_value_def)


lemma true_anomaly_shape:
  assumes "true_anomaly ma e n = Inr r"
  shows "\<exists>vs. r = Array vs \<and> length vs = length (elems ma) \<and> (\<forall>xs. ma \<noteq> PyList xs)"
proof -
  have nl: "\<forall>xs. ma \<noteq> PyList xs" using assms by (auto simp: true_anomaly_def)
  then have "\<exists>e' r'. ea_loop e' (elems ma) n (elems ma) (elems ma) 0 = Inr r'
        \<and> r = Array (map (ta_of_ea e') r')"
    using assms
    by (cases ma) (auto simp: true_anomaly_def bind_err_Inr_iff Let_def split: if_splits)
  then obtain e' r' where r': "ea_loop e' (elems ma) n (elems ma) (elems ma) 0 = Inr r'"
    "r = Array (map (ta_of_ea e') r')" by blast
  have "length r' = length (elems ma)" by (rule ea_loop_length [OF _ r'(1)]) simp
  with r'(2) nl show ?thesis by simp
qed

lemma mean_anomaly_shape:
  assumes "mean_anomaly t t0 p = Inr ma"
  shows "length (elems ma) = length (elems t) \<and> (\<forall>xs. t \<noteq> PyList xs)
       \<and> ((\<exists>x. t = Scalar x) \<longleftrightarrow> (\<exists>x. ma = Scalar x))"
  using assms by (cases t) (auto simp: mean_anomaly_def bind_err_Inr_iff)

lemma radial_velocity_shape:
  assumes "radial_velocity g k (Array vs) w e = Inr r"
  shows "\<exists>ws. r = Array ws \<and> length ws = length vs"
  using assms by (auto simp: radial_velocity_def bind_err_Inr_iff)

text \<open>
  C9, as amended. Whenever \<open>rv_at_times\<close> returns, the result is an array with one value
  per input time; for a single number that is an array of one element, not a number.
\<close>

theorem rv_at_times_shape:
  assumes "rv_at_times self t = Inr r"
  shows "(\<exists>vs. r = Array vs \<and> length vs = length (elems t)) \<and> (\<forall>xs. t \<noteq> PyList xs)
       \<and> (\<forall>x. t = Scalar x \<longrightarrow> (\<exists>v. r = Array [v]))"
proof -
  from assms obtain ma ta where ma: "mean_anomaly t (tau self) (period self) = Inr ma"
    and ta: "true_anomaly ma (ecc self) 10000 = Inr ta"
    and rv: "radial_velocity (gamma self) (semi_amp self) ta (omega self) (ecc self) = Inr r"
    by (auto simp: rv_at_times_def bind_err_Inr_iff)
  from true_anomaly_shape [OF ta] obtain vs where vs: "ta = Array vs" "length vs = length (elems ma)"
    by blast
  from radial_velocity_shape [OF rv [unfolded vs(1)]] obtain ws where
    ws: "r = Array ws" "length ws = length vs" by blast
  have len: "length ws = length (elems t)" using ws vs mean_anomaly_shape [OF ma] by simp
  have one: "\<forall>x. t = Scalar x \<longrightarrow> (\<exists>v. r = Array [v])"
  proof (intro allI impI)
    fix x assume "t = Scalar x"
    with len have "length ws = 1" by simp
    then obtain v where "ws = [v]" by (cases ws) auto
    with ws show "\<exists>v. r = Array [v]" by blast
  qed
  have a: "\<exists>vs. r = Array vs \<and> length vs = length (elems t)" using ws len by blast
  have b: "\<forall>xs. t \<noteq> PyList xs" using mean_anomaly_shape [OF ma] by blast
  from a b one show ?thesis by (intro conjI)
qed

theorem rv_at_times_shape_witness:
  "rv_at_times rv_example (Scalar (Fin 0)) = Inr (Array [Fin 1])
   \<and> (\<exists>vs. Array [Fin 1] = Array vs \<and> length vs = length (elems (Scalar (Fin 0))))
   \<and> (\<exists>v. Array [Fin 1] = Array [v])"
  using rv_at_times_shape [OF rv_example_run] rv_example_run by simp

text \<open>
  C9 as stated fails: for the single time 0 the example model returns the one-element
  array \<open>[1]\<close>, not the number 1.
\<close>

theorem rv_at_times_scalar_counterexample:
  "rv_at_times rv_example (Scalar (Fin 0)) = Inr (Array [Fin 1])
   \<and> Inr (Array [Fin 1]) \<noteq> (Inr (Scalar (Fin 1)) :: pyerror + pyarg)"
  using rv_example_run by simp

section \<open>A model with period zero\<close>

lemma np_add_NaN_right [simp]: "np_add x NaN = NaN"
  by (cases x) simp_all

lemma np_mul_NaN_right [simp]: "np_mul x NaN = NaN"
  by (cases x) simp_all

lemma np_div_NaN_right [simp]: "np_div x NaN = NaN"
  by (cases x) simp_all

lemma np_sub_NaN [simp]: "np_sub x NaN = NaN" "np_sub NaN x = NaN"
  by (simp_all add: np_sub_def)

lemma np_div_zero_cases: "np_div x (Fin 0) = NaN \<or> np_div x (Fin 0) = PInf \<or> np_div x (Fin 0) = NInf"
  by (cases x) simp_all

lemma np_div_zero_not_Fin: "np_div x (Fin 0) \<noteq> Fin r"
  using np_div_zero_cases [of x] by auto

lemma true_anomaly_nonfinite:
  assumes "x = NaN \<or> x = PInf \<or> x = NInf"
  shows "true_anomaly (Scalar x) (PFloat e) 10000 = Inr (Array [NaN])"
  using assms
  by (auto simp: true_anomaly_def ea_loop.simps newton_step_def norm1_def ta_of_ea_def np_sub_def)

lemma rv_value_NaN [simp]: "rv_value g k NaN w e = NaN"
  by (simp add: rv_value_def)

lemma rv_at_times_period_zero:
  assumes "period self = PFloat (Fin 0)" "tau self = PFloat t0" "ecc self = PFloat e"
    "gamma self = PFloat g" "semi_amp self = PFloat k" "omega self = PFloat w"
  shows "rv_at_times self (Scalar t) = Inr (Array [NaN])"
proof -
  have "mean_anomaly (Scalar t) (tau self) (period self)
          = Inr (Scalar (np_div (np_mul (Fin (2 * pi)) (np_sub t t0)) (Fin 0)))"
    using assms by (simp add: mean_anomaly_def ma_value_def)
  moreover have "true_anomaly (Scalar (np_div (np_mul (Fin (2 * pi)) (np_sub t t0)) (Fin 0)))
      (ecc self) 10000 = Inr (Array [NaN])"
    unfolding assms(3) by (rule true_anomaly_nonfinite) (rule np_div_zero_cases)
  ultimately show ?thesis
    using assms by (simp add: rv_at_times_def radial_velocity_def)
qed

text \<open>
  C10. The constructor checks nothing: \<open>RV()\<close> has period 0. For every model with period 0
  and float fields, \<open>mean_anomaly\<close> divides by that zero, so each mean anomaly is the
  quotient of a number by zero, which is never finite, and \<open>rv_at_times\<close> and \<open>rv_at_phase\<close>
  return NaN instead of raising.
\<close>

theorem period_zero_division:
  assumes "period self = PFloat (Fin 0)" "tau self = PFloat t0" "ecc self = PFloat e"
    "gamma self = PFloat g" "semi_amp self = PFloat k" "omega self = PFloat w"
  shows "period RV_default = PFloat (Fin 0)
       \<and> mean_anomaly (Scalar t) (tau self) (period self)
           = Inr (Scalar (np_div (np_mul (Fin (2 * pi)) (np_sub t t0)) (Fin 0)))
       \<and> mean_anomaly (Array ts) (tau self) (period self)
           = Inr (Array (map (\<lambda>t. np_div (np_mul (Fin (2 * pi)) (np_sub t t0)) (Fin 0)) ts))
       \<and> np_div x (Fin 0) \<noteq> Fin r
       \<and> rv_at_times self (Scalar t) = Inr (Array [NaN])
       \<and> rv_at_phase self (Scalar p) = Inr (Array [NaN])"
proof -
  have "rv_at_phase self (Scalar p) = rv_at_times self (Scalar (np_add (np_mul p (Fin 0)) t0))"
    using assms by (simp add: rv_at_phase_def)
  then show ?thesis
    using assms rv_at_times_period_zero [OF assms] np_div_zero_not_Fin
    by (simp add: RV_default_def RV_init_def mean_anomaly_def ma_value_def)
qed

theorem period_zero_division_witness:
  "period RV_default = PFloat (Fin 0)
   \<and> mean_anomaly (Scalar (Fin 1)) (tau RV_default) (period RV_default) = Inr (Scalar PInf)
   \<and> rv_at_times RV_default (Scalar (Fin 1)) = Inr (Array [NaN])
   \<and> rv_at_phase RV_default (Scalar (Fin 1)) = Inr (Array [NaN])"
proof -
  have h: "period RV_default = PFloat (Fin 0)" "tau RV_default = PFloat (Fin 0)"
    "ecc RV_default = PFloat (Fin 0)" "gamma RV_default = PFloat (Fin 0)"
    "semi_amp RV_default = PFloat (Fin 0)" "omega RV_default = PFloat (Fin 0)"
    by (simp_all add: RV_default_def RV_init_def)
  from period_zero_division [OF h, of "Fin 1" "[]" NaN 0 "Fin 1"]
  show ?thesis unfolding h by simp
qed

section \<open>The argument of periastron in degrees\<close>

lemma cos_one_degree: "cos (1::real) \<noteq> cos (pi / 180)"
proof
  assume eq: "cos (1::real) = cos (pi / 180)"
  have a: "(0::real) \<le> 1" by simp
  have b: "(1::real) \<le> pi" using pi_ge_two by linarith
  have c: "0 \<le> pi / 180" using pi_ge_zero by linarith
  have d: "pi / 180 \<le> pi" using pi_ge_zero by linarith
  have "(1::real) = pi / 180" by (rule cos_inj_pi [OF a b c d eq])
  with pi_less_4 show False by linarith
qed

lemma rv_one_degree_fields:
  "semi_amp rv_one_degree = PFloat (Fin 1)" "period rv_one_degree = PFloat (Fin 1)"
  "ecc rv_one_degree = PFloat (Fin 0)" "tau rv_one_degree = PFloat (Fin 0)"
  "gamma rv_one_degree = PFloat (Fin 0)" "omega rv_one_degree = PFloat (Fin 1)"
  "params rv_one_degree =
     [(''k1'', PFloat (Fin 1)), (''period'', PFloat (Fin 1)), (''eccentricity'', PFloat (Fin 0)),
      (''tau'', PFloat (Fin 0)), (''mean_val'', PFloat (Fin 0)), (''omega'', PFloat (Fin 1))]"
  by (simp_all add: rv_one_degree_def RV_init_def dict_update_def param_dict_def)

lemma circular_at_zero:
  "true_anomaly (Scalar (Fin 0)) (PFloat (Fin 0)) 10000 = Inr (Array [Fin 0])"
  by (simp add: true_anomaly_def ea_loop.simps newton_step_def norm1_def ta_of_ea_def atan2_def)

lemma mean_anomaly_at_zero:
  "mean_anomaly (Scalar (Fin 0)) (PFloat (Fin 0)) (PFloat (Fin 1)) = Inr (Scalar (Fin 0))"
  by (simp add: mean_anomaly_def ma_value_def)

lemma rv_one_degree_at_times:
  "rv_at_times rv_one_degree (Scalar (Fin 0)) = Inr (Array [Fin (cos 1)])"
  by (simp add: rv_at_times_def rv_one_degree_fields mean_anomaly_at_zero circular_at_zero
      radial_velocity_def rv_value_def)

lemma rv_one_degree_lookups:
  "dict_get (params rv_one_degree) ''mean_val'' = Inr (PFloat (Fin 0))"
  "dict_get (params rv_one_degree) ''k1'' = Inr (PFloat (Fin 1))"
  "dict_get (params rv_one_degree) ''omega'' = Inr (PFloat (Fin 1))"
  "dict_get (params rv_one_degree) ''eccentricity'' = Inr (PFloat (Fin 0))"
  "dict_get (params rv_one_degree) ''tau'' = Inr (PFloat (Fin 0))"
  "dict_get (params rv_one_degree) ''period'' = Inr (PFloat (Fin 1))"
  by (simp_all add: rv_one_degree_fields dict_get_def)

lemma rv_one_degree_from_params:
  "RV_from_params (Scalar (Fin 0)) (params rv_one_degree) False False
     = Inr (Array [Fin (cos (pi / 180))])"
  by (simp add: RV_from_params_def rv_one_degree_lookups rv_curve_py_def mean_anomaly_at_zero
      circular_at_zero radial_velocity_def rv_value_def)

text \<open>
  C2 fails on the code: \<open>rv_at_times\<close> passes the stored \<open>omega\<close> to \<open>radial_velocity\<close>
  as it is, while \<open>RV_from_params\<close> converts it with \<open>deg2rad\<close>. For a circular orbit with
  \<open>omega = 1\<close> at time 0 the first gives \<open>cos 1\<close> and the second \<open>cos (pi / 180)\<close>.
\<close>

theorem rv_at_times_omega_not_converted:
  "rv_at_times rv_one_degree (Scalar (Fin 0)) = Inr (Array [Fin (cos 1)])
   \<and> RV_from_params (Scalar (Fin 0)) (params rv_one_degree) False False
       = Inr (Array [Fin (cos (pi / 180))])
   \<and> cos (1::real) \<noteq> cos (pi / 180)"
  using cos_one_degree rv_one_degree_at_times rv_one_degree_from_params by simp

section \<open>Construction from a mapping, and the parameter file\<close>

lemma RV_init_params:
  "params (RV_init k p e t g w [(''other_params'', v)])
     = [(''k1'', k), (''period'', p), (''eccentricity'', e), (''tau'', t), (''mean_val'', g),
        (''omega'', w), (''other_params'', v)]"
  by (simp add: RV_init_def dict_update_def param_dict_def)

lemma from_dict_params:
  assumes "from_dict ps = Inr rv"
  shows "map fst (params rv) = [''k1'', ''period'', ''eccentricity'', ''tau'', ''mean_val'',
                                ''omega'', ''other_params'']"
proof -
  from assms obtain k p e t g w where "rv = RV_init k p e t g w [(''other_params'', PDict ps)]"
    by (auto simp: from_dict_def bind_err_Inr_iff)
  then show ?thesis by (simp add: RV_init_params)
qed

lemma params_with_k2_lookups:
  "dict_get params_with_k2 ''k1'' = Inr (PFloat (Fin 1))"
  "dict_get params_with_k2 ''period'' = Inr (PFloat (Fin 1))"
  "dict_get params_with_k2 ''eccentricity'' = Inr (PFloat (Fin 0))"
  "dict_get params_with_k2 ''tau'' = Inr (PFloat (Fin 0))"
  "dict_get params_with_k2 ''mean_val'' = Inr (PFloat (Fin 0))"
  "dict_get params_with_k2 ''omega'' = Inr (PFloat (Fin 0))"
  "dict_get params_with_k2 ''k2'' = Inr (PFloat (Fin 5))"
  by (simp_all add: params_with_k2_def dict_get_def)

text \<open>
  C7 fails on the code: \<open>from_dict\<close> stores the whole mapping under the single key
  \<open>other_params\<close>, so the extra key \<open>k2\<close> is not an entry of \<open>params\<close>.
\<close>

theorem from_dict_nests_extra_keys:
  "map_sum id params (from_dict params_with_k2)
     = Inr [(''k1'', PFloat (Fin 1)), (''period'', PFloat (Fin 1)),
            (''eccentricity'', PFloat (Fin 0)), (''tau'', PFloat (Fin 0)),
            (''mean_val'', PFloat (Fin 0)), (''omega'', PFloat (Fin 0)),
            (''other_params'', PDict params_with_k2)]
   \<and> map_sum id (\<lambda>rv. map_of (params rv) ''k2'') (from_dict params_with_k2) = Inr None"
  by (simp add: from_dict_def params_with_k2_lookups RV_init_params)

lemma load_k2_file:
  "load_params [''k2 = 1\<newline>''] [] = Inr [(''k2'', PStr ''1'')]"
  by (simp add: lower_def lower_char_def strip_def is_space_def)

lemma load_msini_file:
  "load_params file_with_msini []
     = Inr [(''k1'', PStr ''1''), (''m_star'', PStr ''1''), (''msini'', PStr ''2'')]"
  by (simp add: file_with_msini_def lower_def lower_char_def strip_def is_space_def)

lemma ingest_k2_file: "ingest pyfloat [''k2 = 1\<newline>''] = Inr [(''k2'', PStr ''1'')]"
  unfolding ingest_def load_k2_file by (simp add: float_keys_def)

lemma ingest_msini_file:
  "ingest float_of_one file_with_msini
     = Inr [(''k1'', PFloat (Fin 1)), (''m_star'', PFloat (Fin 1)), (''msini'', PStr ''2'')]"
  by (simp add: ingest_def load_msini_file float_keys_def dict_get_def float_of_one_def)

lemma add_k2_present: "add_k2 [(''k2'', v)] = Inr [(''k2'', v)]"
  by (simp add: add_k2_def)

lemma main_msini_file: "main float_of_one file_with_msini mode = Inl TypeError"
  by (simp add: main_def ingest_msini_file add_k2_def dict_get_def companion_amplitude_def)

lemma load_params_error: "load_params ls ps = Inl err \<Longrightarrow> err = ValueError"
  by (induction ls arbitrary: ps) (auto split: if_splits list.splits)

lemma float_of_error: "float_of pyfloat v = Inl err \<Longrightarrow> err = ValueError \<or> err = TypeError"
  by (cases v) (auto split: option.splits)

lemma dict_get_error: "dict_get d k = Inl err \<Longrightarrow> err = KeyError"
  by (auto simp: dict_get_def split: option.splits)

lemma bind_err_Inl_iff:
  "bind_err r f = Inl err \<longleftrightarrow> r = Inl err \<or> (\<exists>x. r = Inr x \<and> f x = Inl err)"
  by (cases r) simp_all

lemma convert_floats_error:
  "convert_floats pyfloat ks ps = Inl err \<Longrightarrow> err = ValueError \<or> err = TypeError \<or> err = KeyError"
proof (induction ks arbitrary: ps)
  case Nil
  then show ?case by simp
next
  case (Cons k ks)
  then show ?case
    by (auto simp: bind_err_Inl_iff split: if_splits dest: float_of_error dict_get_error)
qed

lemma companion_amplitude_error:
  "companion_amplitude k m c = Inl err \<Longrightarrow> err = TypeError \<or> err = ZeroDivisionError"
  by (cases k; cases m; cases c) (auto simp: companion_amplitude_def split: if_splits)

lemma add_k2_error:
  "add_k2 ps = Inl err \<Longrightarrow> err = KeyError \<or> err = TypeError \<or> err = ZeroDivisionError"
  by (auto simp: add_k2_def bind_err_Inl_iff split: if_splits
      dest: dict_get_error companion_amplitude_error)

lemma main_errors:
  "main pyfloat ls mode = Inl ValueError \<or> main pyfloat ls mode = Inl TypeError
   \<or> main pyfloat ls mode = Inl KeyError \<or> main pyfloat ls mode = Inl ZeroDivisionError
   \<or> main pyfloat ls mode = Inl NameError"
proof (cases "main pyfloat ls mode")
  case (Inl err)
  then have "err = ValueError \<or> err = TypeError \<or> err = KeyError \<or> err = ZeroDivisionError
      \<or> err = NameError"
    by (auto simp: main_def ingest_def bind_err_Inl_iff split: if_splits
        dest: load_params_error convert_floats_error add_k2_error)
  with Inl show ?thesis by auto
next
  case (Inr u)
  then show ?thesis by (auto simp: main_def bind_err_Inr_iff split: if_splits)
qed

text \<open>
  C5 fails on the code: in mode \<open>time\<close> a file that gives \<open>k2\<close> reaches
  \<open>raise NotImplemented\<close>, which raises TypeError; no input makes \<open>main\<close> raise
  NotImplementedError.
\<close>

theorem main_time_mode_raises_TypeError:
  "main pyfloat [''k2 = 1\<newline>''] ''time'' = Inl TypeError
   \<and> main pyfloat ls mode \<noteq> Inl NotImplementedError"
proof -
  have "main pyfloat [''k2 = 1\<newline>''] ''time'' = Inl TypeError"
    unfolding main_def ingest_k2_file by (simp add: add_k2_present)
  moreover have "main pyfloat ls mode \<noteq> Inl NotImplementedError"
    using main_errors [of pyfloat ls mode] by auto
  ultimately show ?thesis by simp
qed

lemma load_params_strings:
  assumes "load_params ls ps = Inr ps'" "\<forall>k v. map_of ps k = Some v \<longrightarrow> is_str v"
  shows "\<forall>k v. map_of ps' k = Some v \<longrightarrow> is_str v"
  using assms
proof (induction ls arbitrary: ps)
  case Nil
  then show ?case by simp
next
  case (Cons l ls)
  show ?case
  proof (cases "startswith_hash l")
    case True
    with Cons show ?thesis by simp
  next
    case False
    with Cons.prems(1) obtain par val where pv: "split_eq (lower l) = [par, val]"
      and rec: "load_params ls (AList.update (strip par) (PStr (strip val)) ps) = Inr ps'"
      by (auto split: list.splits)
    have "\<forall>k v. map_of (AList.update (strip par) (PStr (strip val)) ps) k = Some v \<longrightarrow> is_str v"
      using Cons.prems(2) by (auto simp: update_conv')
    from Cons.IH [OF rec this] show ?thesis .
  qed
qed

lemma convert_floats_other_keys:
  assumes "convert_floats pyfloat ks ps = Inr ps'" "k \<notin> set float_keys"
  shows "map_of ps' k = map_of ps k"
  using assms
proof (induction ks arbitrary: ps)
  case Nil
  then show ?case by simp
next
  case (Cons a ks)
  show ?case
  proof (cases "a \<in> set float_keys")
    case True
    with Cons.prems(1) obtain x where
      rec: "convert_floats pyfloat ks (AList.update a x ps) = Inr ps'"
      by (auto simp: bind_err_Inr_iff)
    have "a \<noteq> k" using True Cons.prems(2) by auto
    with Cons.IH [OF rec Cons.prems(2)] show ?thesis by (simp add: update_conv')
  next
    case False
    with Cons show ?thesis by simp
  qed
qed

lemma ingest_msini_stays_string:
  assumes "ingest pyfloat ls = Inr ps" "map_of ps ''msini'' = Some v"
  shows "is_str v"
proof -
  from assms(1) obtain ps0 where l: "load_params ls [] = Inr ps0"
    and c: "convert_floats pyfloat (map fst ps0) ps0 = Inr ps"
    by (auto simp: ingest_def bind_err_Inr_iff)
  have "''msini'' \<notin> set float_keys" by (simp add: float_keys_def)
  from convert_floats_other_keys [OF c this] assms(2) have "map_of ps0 ''msini'' = Some v" by simp
  with load_params_strings [OF l] show ?thesis by simp
qed

text \<open>
  C6 fails on the code: the key list spells \<open>'msini '\<close> with a trailing space, so the
  stripped key \<open>msini\<close> is never converted; its value stays a string and the derivation
  of \<open>k2\<close> from it raises TypeError.
\<close>

theorem ingest_leaves_msini_a_string:
  "ingest float_of_one file_with_msini
     = Inr [(''k1'', PFloat (Fin 1)), (''m_star'', PFloat (Fin 1)), (''msini'', PStr ''2'')]
   \<and> main float_of_one file_with_msini ''phase'' = Inl TypeError"
  by (simp add: ingest_msini_file main_msini_file)

end
